theory Spec2Isabelle
  imports Complex_Main
begin

section \<open>Time and the persisted data model\<close>

text \<open>
  Timestamps are JavaScript epoch milliseconds (\<open>Date.now()\<close>, \<open>new Date(s).getTime()\<close>),
  modelled as \<open>int\<close>; an ISO string that is written by \<open>toISOString\<close> and read back by
  \<open>new Date\<close> is the same number, so a stored date string is its millisecond value. The
  time value of a \<open>Date\<close> lies within \<open>MAX_TIME\<close> of the epoch. An optional field that
  is \<open>undefined\<close> or deleted is \<open>None\<close>.
\<close>

type_synonym time = int

definition DAY :: int where
  "DAY = 1000 * 60 * 60 * 24"

definition MAX_TIME :: int where
  "MAX_TIME = 8640000000000000"

text \<open>
  The field \<open>expires_at\<close>: absent (\<open>undefined\<close>), \<open>null\<close>, or the ISO string of a time value.
  \<open>getTime\<close> is \<open>new Date(x).getTime()\<close>, with \<open>None\<close> for \<open>NaN\<close>: \<open>new Date(undefined)\<close> is an
  invalid date and \<open>new Date(null)\<close> is the epoch. Only a string is truthy.
\<close>

datatype stamp = Absent | Null | At time

definition getTime :: "stamp \<Rightarrow> time option" where
  "getTime x = (case x of Absent \<Rightarrow> None | Null \<Rightarrow> Some 0 | At t \<Rightarrow> Some t)"

text \<open>
  Resource displays such as \<open>`${limits.memory / 1000}GB`\<close> are kept structured instead of
  being rendered to text: \<open>GB m\<close> stands for the text of \<open>m / 1000\<close> followed by GB.
\<close>

datatype display = Unlimited | GB int | MB int | Percent int | Raw int

record specs =
  ram :: display
  cpu :: display
  disk :: "display option"
  ram_raw :: "int option"
  disk_raw :: "int option"
  cpu_raw :: "int option"

text \<open>
  The \<open>panel_data\<close> object. The one written by the reconciler and the one returned by
  \<open>createRealPterodactylPanel\<close> carry \<open>server_id\<close>, \<open>server_name\<close>, \<open>expires_at\<close> and
  \<open>specs\<close>; the one returned by \<open>renewPanel\<close> carries \<open>server_id\<close>, \<open>new_expiry\<close> and
  \<open>product_id\<close> only, so these fields are optional.
\<close>

record panel_data =
  pd_username :: string
  pd_password :: "string option"
  server_id :: "int option"
  server_name :: "string option"
  owner_id :: "nat option"
  owner_email :: "string option"
  expires_at :: stamp
  specs :: "specs option"
  new_expiry :: "time option"
  product_id :: "string option"

text \<open>An entry of the persisted subscription list (\<open>loadServerDatabase\<close>).\<close>

record subscription =
  sub_id :: string
  username :: string
  product_name :: string
  days :: int
  password :: string
  created_at :: time
  status :: string
  suspend_by :: "string option"
  panel_data :: "panel_data option"

text \<open>
  What the code throws: the errors of the language, the error of \<open>renewPanel\<close> for a
  server that the database does not hold, and the failures of the provisioning workflow
  (a username that is taken, a rejected remote call, a remote reply with \<open>errors\<close>, an
  error of the language that the workflow lets through).
\<close>

datatype error = TypeError | RangeError | NotInDatabase

datatype failure =
    DuplicateUser string
  | RemoteRejected
  | RemoteErrors
  | Thrown error

text \<open>
  An entry of the in-memory order cache \<open>panelsStorage\<close>. \<open>days\<close> is stored as
  \<open>parseInt(days) || 30\<close>, an integer.
\<close>

record order =
  order_id :: string
  order_username :: string
  order_product_name :: string
  order_amount :: int
  order_days :: int
  order_status :: string
  order_type :: string
  order_created_at :: "time option"
  order_completed_at :: "time option"
  order_panel_data :: "panel_data option"
  order_panel_error :: "failure option"
  order_server_id :: "int option"
  order_password :: "string option"
  order_basePrice :: "int option"

section \<open>GET /api/order/:order_id\<close>

record safePanelData =
  safe_username :: string
  safe_server_id :: "int option"
  safe_server_name :: "string option"
  safe_expires_at :: stamp
  safe_specs :: "specs option"

record order_view =
  view_order_id :: string
  view_username :: string
  view_product_name :: string
  view_amount :: int
  view_status :: string
  view_created_at :: "time option"
  view_completed_at :: "time option"
  view_panel_data :: "safePanelData option"
  view_panel_error :: "failure option"

datatype order_response = Status404 | OrderJson order_view

definition safe_of :: "panel_data \<Rightarrow> safePanelData" where
  "safe_of pd = \<lparr> safe_username = pd_username pd, safe_server_id = server_id pd,
     safe_server_name = server_name pd, safe_expires_at = expires_at pd,
     safe_specs = specs pd \<rparr>"

text \<open>
  \<open>panelsStorage\<close> is an object keyed by order id: an association list in the order in
  which \<open>Object.entries\<close> enumerates it, a key being looked up with \<open>map_of\<close>.
\<close>

type_synonym order_cache = "(string \<times> order) list"

definition get_order :: "order_cache \<Rightarrow> string \<Rightarrow> order_response" where
  "get_order panelsStorage oid =
     (case map_of panelsStorage oid of
        None \<Rightarrow> Status404
      | Some orderData \<Rightarrow>
          (let safePanel = (case order_panel_data orderData of
                              None \<Rightarrow> None
                            | Some pd \<Rightarrow> Some (safe_of pd))
           in OrderJson \<lparr> view_order_id = order_id orderData,
                view_username = order_username orderData,
                view_product_name = order_product_name orderData,
                view_amount = order_amount orderData,
                view_status = order_status orderData,
                view_created_at = order_created_at orderData,
                view_completed_at = order_completed_at orderData,
                view_panel_data = safePanel,
                view_panel_error = order_panel_error orderData \<rparr>))"

section \<open>The admin read: status derivation\<close>







section \<open>The persisted document, the settings cache and the remote collaborators\<close>

text \<open>
  The persisted document is a list of subscription entries and of entries with the
  reserved id \<open>_SETTINGS_\<close>. The price table \<open>PRICES\<close> is an object from tier keys to prices.
\<close>

record settings =
  WEBSITE_LOGO :: string
  WEBSITE_BANNER :: string
  PRICES :: "(string \<times> int) list option"
  ANNOUNCEMENT :: "string \<times> bool"
  MAINTENANCE_MODE :: bool

datatype entry = Sub subscription | SettingsEntry "settings option"

text \<open>A server of the hosting control plane, as \<open>server.attributes\<close> of the list call.\<close>

record remote_server =
  attr_id :: int
  attr_name :: string
  attr_node :: int
  attr_suspended :: bool
  attr_created_at :: time
  attr_user :: nat
  attr_owner :: "(string \<times> string) option"
  limits_memory :: int
  limits_cpu :: int
  limits_disk :: int

text \<open>
  Every request to a collaborator is a \<open>call\<close>; the collaborators are a function from the
  history of calls, the last one being the current request, to its \<open>reply\<close>, so that a
  collaborator may answer the same request differently at different times. A reply of
  the wrong shape is what the code sees as a rejected promise or a malformed body.
  \<open>fetchData\<close> and \<open>updateData\<close> are calls of their own: both catch every failure, and
  \<open>updateData\<close> returns nothing, so its reply never reaches its caller. \<open>Respond\<close> marks
  the point where a handler sends its response.
\<close>

datatype call =
    FetchData
  | UpdateData "entry list"
  | ListServers
  | Suspend "int option"
  | Unsuspend "int option"
  | GetServer "int option"
  | DeleteServer "int option"
  | GetUser nat
  | DeleteUser nat
  | TransactionDetail int string
  | RandomPassword
  | ListUsers string
  | CreateUser string string string
  | GetEgg
  | CreateServer nat string int int int
  | Respond

datatype reply =
    Failed
  | Done
  | NotFound
  | Document "entry list"
  | ServerList "remote_server list"
  | ServerOwner nat
  | UserServers bool "int list"
  | Transaction "string option"
  | Password string
  | UserList "string list"
  | UserAttributes nat string string
  | Egg "string option"
  | ServerAttributes int string
  | Errors

type_synonym remote = "call list \<Rightarrow> reply"

definition perform :: "remote \<Rightarrow> call list \<Rightarrow> call \<Rightarrow> reply \<times> call list" where
  "perform env tr c = (env (tr @ [c]), tr @ [c])"

definition fetchData :: "remote \<Rightarrow> call list \<Rightarrow> entry list \<times> call list" where
  "fetchData env tr =
     (case perform env tr FetchData of
        (Document d, tr') \<Rightarrow> (d, tr')
      | (_, tr') \<Rightarrow> ([], tr'))"

fun subscriptions_of :: "entry list \<Rightarrow> subscription list" where
  "subscriptions_of [] = []"
| "subscriptions_of (Sub s # es) = s # subscriptions_of es"
| "subscriptions_of (SettingsEntry _ # es) = subscriptions_of es"

definition loadServerDatabase :: "remote \<Rightarrow> call list \<Rightarrow> subscription list \<times> call list" where
  "loadServerDatabase env tr =
     (case fetchData env tr of (d, tr') \<Rightarrow> (subscriptions_of d, tr'))"

text \<open>
  \<open>loadSettings\<close>: the cache \<open>(settingsCache, settingsLastFetch)\<close> answers for 60 seconds;
  otherwise the first settings entry of the document is read, and cached when it carries
  settings; otherwise the static defaults of \<open>config\<close> are returned, uncached.
\<close>

type_synonym cache = "(settings \<times> time) option"

fun find_settings :: "entry list \<Rightarrow> settings option option" where
  "find_settings [] = None"
| "find_settings (SettingsEntry s # es) = Some s"
| "find_settings (Sub _ # es) = find_settings es"

definition defaults :: "settings \<Rightarrow> settings" where
  "defaults config = \<lparr> WEBSITE_LOGO = WEBSITE_LOGO config, WEBSITE_BANNER = WEBSITE_BANNER config,
     PRICES = PRICES config, ANNOUNCEMENT = ([], False), MAINTENANCE_MODE = False \<rparr>"

definition loadSettings ::
  "settings \<Rightarrow> time \<Rightarrow> remote \<Rightarrow> cache \<times> call list \<Rightarrow> settings \<times> cache \<times> call list" where
  "loadSettings config now env w =
     (case w of (settingsCache, tr) \<Rightarrow>
        (case (case settingsCache of
                 Some (s, settingsLastFetch) \<Rightarrow>
                   if now - settingsLastFetch < 60000 then Some s else None
               | None \<Rightarrow> None) of
           Some s \<Rightarrow> (s, settingsCache, tr)
         | None \<Rightarrow>
             (case fetchData env tr of (githubData, tr') \<Rightarrow>
                (case find_settings githubData of
                   Some (Some s) \<Rightarrow> (s, Some (s, now), tr')
                 | _ \<Rightarrow> (defaults config, settingsCache, tr')))))"

definition updateData :: "remote \<Rightarrow> call list \<Rightarrow> entry list \<Rightarrow> call list" where
  "updateData env tr newData = snd (perform env tr (UpdateData newData))"

definition saveServerDatabase ::
  "settings \<Rightarrow> time \<Rightarrow> remote \<Rightarrow> cache \<times> call list \<Rightarrow> subscription list \<Rightarrow> cache \<times> call list" where
  "saveServerDatabase config now env w data =
     (case loadSettings config now env w of (currentSettings, settingsCache, tr) \<Rightarrow>
        (settingsCache,
         updateData env tr (map Sub data @ [SettingsEntry (Some currentSettings)])))"

section \<open>The admin read: import of unknown remote servers\<close>


















section \<open>Deprovisioning\<close>

text \<open>
  An \<open>axios\<close> promise resolves on a 2xx status and is rejected otherwise: \<open>Failed\<close> is a
  rejection without a 404 status, \<open>NotFound\<close> a rejection with status 404, \<open>Done\<close> a
  resolved 204 without a body, and every other reply a resolved response with that body.
\<close>

definition resolved :: "reply \<Rightarrow> bool" where
  "resolved r = (r \<noteq> Failed \<and> r \<noteq> NotFound)"

text \<open>The truth value of an owner id: \<open>null\<close>, \<open>undefined\<close> and \<open>0\<close> are falsy.\<close>

definition truthy :: "nat option \<Rightarrow> bool" where
  "truthy ownerId = (case ownerId of Some n \<Rightarrow> n \<noteq> 0 | None \<Rightarrow> False)"

text \<open>
  The loop over \<open>Object.entries(panelsStorage)\<close> that deletes the first order whose
  \<open>panel_data.server_id\<close> is loosely equal to \<open>serverId\<close>, and breaks.
\<close>

fun forget_order :: "int option \<Rightarrow> order_cache \<Rightarrow> order_cache" where
  "forget_order serverId [] = []"
| "forget_order serverId ((key, panel) # rest) =
     (case order_panel_data panel of
        Some pd \<Rightarrow> if server_id pd = serverId then rest
                   else (key, panel) # forget_order serverId rest
      | None \<Rightarrow> (key, panel) # forget_order serverId rest)"

text \<open>
  The owner cleanup shared by both deletion paths: the owner is deleted when it is not
  an administrator and owns no server other than \<open>serverId\<close>. The result tells whether the
  \<open>try\<close> block ran to its end.
\<close>

datatype cleanup = OwnerIsAdmin | OwnerDeleted | OwnerKept | CleanupFailed

definition owner_cleanup :: "remote \<Rightarrow> call list \<Rightarrow> int option \<Rightarrow> nat \<Rightarrow> cleanup \<times> call list" where
  "owner_cleanup env tr serverId ownerId =
     (case perform env tr (GetUser ownerId) of
        (UserServers root_admin userServers, tr1) \<Rightarrow>
          (let remainingServers = filter (\<lambda>i. Some i \<noteq> serverId) userServers
           in if root_admin then (OwnerIsAdmin, tr1)
              else if remainingServers = [] then
                (case perform env tr1 (DeleteUser ownerId) of
                   (r, tr2) \<Rightarrow> (if resolved r then OwnerDeleted else CleanupFailed, tr2))
              else (OwnerKept, tr1))
      | (_, tr1) \<Rightarrow> (CleanupFailed, tr1))"

text \<open>
  \<open>deleteExpiredPanel(serverId, username)\<close>, called by the sweeper. Every remote call
  sits in a \<open>try\<close> with an empty \<open>catch\<close>; the loop over the order cache cannot throw, so
  the outer \<open>catch\<close> that returns \<open>false\<close> is never entered.
\<close>

definition deleteExpiredPanel ::
  "remote \<Rightarrow> order_cache \<times> call list \<Rightarrow> int option \<Rightarrow> string
     \<Rightarrow> bool \<times> order_cache \<times> call list" where
  "deleteExpiredPanel env w serverId uname =
     (case w of (panelsStorage, tr) \<Rightarrow>
        (case perform env tr (GetServer serverId) of (r, tr1) \<Rightarrow>
           (let ownerId = (case r of ServerOwner n \<Rightarrow> Some n | _ \<Rightarrow> None);
                tr3 = (case ownerId of
                         Some n \<Rightarrow>
                           if truthy ownerId then
                             (case perform env tr1 (DeleteServer serverId) of (_, tr2) \<Rightarrow>
                                snd (owner_cleanup env tr2 serverId n))
                           else tr1
                       | None \<Rightarrow> tr1)
            in (True, forget_order serverId panelsStorage, tr3))))"

section \<open>The expiration sweeper\<close>

record queued =
  q_index :: nat
  q_serverId :: "int option"
  q_username :: string

text \<open>
  \<open>AUTO_DELETE_AFTER_DAYS = config.AUTO_DELETE_AFTER_DAYS || 7\<close>; the configuration module
  is not part of the sources, so its value is a parameter.
\<close>

definition AUTO_DELETE_AFTER_DAYS :: "int option \<Rightarrow> int" where
  "AUTO_DELETE_AFTER_DAYS configured =
     (case configured of Some n \<Rightarrow> if n = 0 then 7 else n | None \<Rightarrow> 7)"

record sweep =
  changed :: bool
  panelsToDelete :: "queued list"
  sweep_calls :: "call list"

text \<open>
  The body of the first loop, for the subscription \<open>srv\<close> at index \<open>i\<close>. A subscription
  without \<open>panel_data\<close> throws a \<open>TypeError\<close>; one without \<open>expires_at\<close> has the expiry time
  \<open>NaN\<close>, for which both comparisons are false, and one whose \<open>expires_at\<close> is \<open>null\<close> has
  the epoch.
\<close>

definition sweep_entry ::
  "time \<Rightarrow> int \<Rightarrow> remote \<Rightarrow> nat \<Rightarrow> subscription \<Rightarrow> sweep \<Rightarrow> error + subscription \<times> sweep" where
  "sweep_entry now grace env i srv st =
     (if suspend_by srv = Some ''admin'' then Inr (srv, st)
      else
        (case panel_data srv of
           None \<Rightarrow> Inl TypeError
         | Some pd \<Rightarrow>
             (case getTime (expires_at pd) of
                None \<Rightarrow> Inr (srv, st)
              | Some expireTime \<Rightarrow>
                  (let daysExpired = (now - expireTime) div DAY;
                       (srv1, st1) =
                         (if expireTime < now \<and> suspend_by srv \<noteq> Some ''auto'' then
                            (case perform env (sweep_calls st) (Suspend (server_id pd)) of
                               (r, tr) \<Rightarrow>
                                 if resolved r
                                 then (srv\<lparr> suspend_by := Some ''auto'' \<rparr>,
                                       st\<lparr> changed := True, sweep_calls := tr \<rparr>)
                                 else (srv, st\<lparr> sweep_calls := tr \<rparr>))
                          else (srv, st));
                       st2 =
                         (if expireTime < now \<and> daysExpired \<ge> grace then
                            st1\<lparr> panelsToDelete := panelsToDelete st1 @
                                  [\<lparr> q_index = i, q_serverId = server_id pd,
                                     q_username = username srv \<rparr>] \<rparr>
                          else st1)
                   in Inr (srv1, st2)))))"

text \<open>
  The first loop, from index \<open>i\<close> on: \<open>done\<close> holds the entries already visited, in their
  state after the visit. A throw leaves the loop with the calls issued so far.
\<close>

fun sweep_loop ::
  "time \<Rightarrow> int \<Rightarrow> remote \<Rightarrow> nat \<Rightarrow> subscription list \<Rightarrow> subscription list \<Rightarrow> sweep
     \<Rightarrow> (error + subscription list) \<times> sweep" where
  "sweep_loop now grace env i [] done st = (Inr done, st)"
| "sweep_loop now grace env i (srv # rest) done st =
     (case sweep_entry now grace env i srv st of
        Inl e \<Rightarrow> (Inl e, st)
      | Inr (srv1, st1) \<Rightarrow> sweep_loop now grace env (Suc i) rest (done @ [srv1]) st1)"

text \<open>\<open>db.splice(i, 1)\<close>: nothing is removed when \<open>i\<close> is not an index of \<open>db\<close>.\<close>

definition splice1 :: "nat \<Rightarrow> 'a list \<Rightarrow> 'a list" where
  "splice1 i db = take i db @ drop (Suc i) db"

text \<open>The second loop, over the reversed queue.\<close>

fun delete_loop ::
  "remote \<Rightarrow> queued list \<Rightarrow> subscription list \<times> bool \<times> order_cache \<times> call list
     \<Rightarrow> subscription list \<times> bool \<times> order_cache \<times> call list" where
  "delete_loop env [] w = w"
| "delete_loop env (panel # rest) (db, dbChanged, panelsStorage, tr) =
     (case deleteExpiredPanel env (panelsStorage, tr) (q_serverId panel)
             (q_username panel) of
        (success, panelsStorage1, tr1) \<Rightarrow>
          if success
          then delete_loop env rest (splice1 (q_index panel) db, True, panelsStorage1, tr1)
          else delete_loop env rest (db, dbChanged, panelsStorage1, tr1))"

text \<open>
  Both loops of one tick, on the database \<open>db\<close> that was loaded: the database in memory
  after the tick and whether it is to be saved, or the error that ended the tick.
\<close>

definition sweep_passes ::
  "time \<Rightarrow> int \<Rightarrow> remote \<Rightarrow> subscription list \<Rightarrow> order_cache \<times> call list
     \<Rightarrow> (error + subscription list \<times> bool) \<times> order_cache \<times> call list" where
  "sweep_passes now grace env db w =
     (case w of (panelsStorage, tr) \<Rightarrow>
        (case sweep_loop now grace env 0 db []
                \<lparr> changed = False, panelsToDelete = [], sweep_calls = tr \<rparr> of
           (Inl e, st) \<Rightarrow> (Inl e, panelsStorage, sweep_calls st)
         | (Inr db1, st) \<Rightarrow>
             (case delete_loop env (rev (panelsToDelete st))
                     (db1, changed st, panelsStorage, sweep_calls st) of
                (db2, dbChanged, panelsStorage2, tr2) \<Rightarrow>
                  (Inr (db2, dbChanged), panelsStorage2, tr2))))"

text \<open>
  One tick of the \<open>setInterval\<close> callback. An error is caught and ends the tick without a
  write. One clock reading \<open>now\<close> stands for the tick.
\<close>

definition sweeper_tick ::
  "settings \<Rightarrow> int option \<Rightarrow> time \<Rightarrow> remote \<Rightarrow> cache \<times> order_cache \<times> call list
     \<Rightarrow> cache \<times> order_cache \<times> call list" where
  "sweeper_tick config configured now env w =
     (case w of (settingsCache, panelsStorage, tr) \<Rightarrow>
        (case loadServerDatabase env tr of (db, tr1) \<Rightarrow>
           (case sweep_passes now (AUTO_DELETE_AFTER_DAYS configured) env db
                   (panelsStorage, tr1) of
              (Inl e, panelsStorage2, tr2) \<Rightarrow> (settingsCache, panelsStorage2, tr2)
            | (Inr (db2, dbChanged), panelsStorage2, tr2) \<Rightarrow>
                if dbChanged then
                  (case saveServerDatabase config now env (settingsCache, tr2) db2 of
                     (settingsCache3, tr3) \<Rightarrow> (settingsCache3, panelsStorage2, tr3))
                else (settingsCache, panelsStorage2, tr2))))"

section \<open>Numbers\<close>

text \<open>
  A JavaScript number is an IEEE 754 binary64 value, and \<open>/\<close> and \<open>*\<close> round their exact
  result to the nearest such value, ties going to the even significand. \<open>fl\<close> is that
  rounding on the rationals, for results in the normal range (between \<open>2^-1022\<close> and
  \<open>2^1024\<close> in magnitude), where every computation of a price or of a date lies: with \<open>2^e \<le> |q| < 2^(e+1)\<close>
  the value is the multiple of \<open>2^(e-52)\<close> nearest to \<open>q\<close>.
\<close>

function bitlen :: "int \<Rightarrow> int" where
  "bitlen n = (if n \<le> 0 then 0 else bitlen (n div 2) + 1)"
  by pat_completeness auto
termination
  by (relation "measure nat") auto

declare bitlen.simps [simp del]

text \<open>
  The exponent \<open>e\<close> with \<open>2^e \<le> q < 2^(e+1)\<close> of a positive \<open>q\<close>: one less than the
  number of bits of the integer part of \<open>q \<ge> 1\<close>, and for \<open>q < 1\<close> the negated number
  of bits of \<open>\<lceil>1 / q\<rceil> - 1\<close>.
\<close>

definition binade :: "rat \<Rightarrow> int" where
  "binade q = (if 1 \<le> q then bitlen \<lfloor>q\<rfloor> - 1
               else - bitlen (\<lceil>1 / q\<rceil> - 1))"

definition pow2 :: "int \<Rightarrow> rat" where
  "pow2 e = (if 0 \<le> e then 2 ^ nat e else 1 / 2 ^ nat (- e))"

definition round_half_even :: "rat \<Rightarrow> int" where
  "round_half_even m =
     (let f = \<lfloor>m\<rfloor>; r = m - of_int f
      in if r < 1 / 2 then f else if 1 / 2 < r then f + 1
         else if even f then f else f + 1)"

definition fl_pos :: "rat \<Rightarrow> rat" where
  "fl_pos q = (let ulp = pow2 (binade q - 52) in of_int (round_half_even (q / ulp)) * ulp)"

definition fl :: "rat \<Rightarrow> rat" where
  "fl q = (if q = 0 then 0 else if 0 < q then fl_pos q else - fl_pos (- q))"

text \<open>
  \<open>new Date(base + (d * 24 * 60 * 60 * 1000)).toISOString()\<close>: the products and the sum are
  rounded one by one, a sum beyond \<open>MAX_TIME\<close> in magnitude is not a time value, for which
  \<open>toISOString\<close> throws a \<open>RangeError\<close> (\<open>None\<close>), and a time value is truncated to an
  integer.
\<close>

definition trunc :: "rat \<Rightarrow> int" where
  "trunc q = (if 0 \<le> q then \<lfloor>q\<rfloor> else \<lceil>q\<rceil>)"

definition add_days :: "time \<Rightarrow> int \<Rightarrow> time option" where
  "add_days base d =
     (let t = fl (of_int base + fl (fl (fl (fl (of_int d * 24) * 60) * 60) * 1000))
      in if \<bar>t\<bar> \<le> of_int MAX_TIME then Some (trunc t) else None)"

section \<open>Renewal\<close>

text \<open>\<open>findIndex\<close>, returning the element with its index; \<open>None\<close> is the index \<open>-1\<close>.\<close>

fun findIndex :: "('a \<Rightarrow> bool) \<Rightarrow> 'a list \<Rightarrow> (nat \<times> 'a) option" where
  "findIndex P [] = None"
| "findIndex P (x # xs) =
     (if P x then Some (0, x)
      else (case findIndex P xs of Some (i, y) \<Rightarrow> Some (Suc i, y) | None \<Rightarrow> None))"

text \<open>\<open>p.panel_data && p.panel_data.server_id == sid\<close>, with loose equality.\<close>

definition by_server_id :: "int option \<Rightarrow> subscription \<Rightarrow> bool" where
  "by_server_id sid p = (case panel_data p of Some pd \<Rightarrow> server_id pd = sid | None \<Rightarrow> False)"

definition by_username :: "string \<Rightarrow> subscription \<Rightarrow> bool" where
  "by_username u p =
     (username p = u \<or> (case panel_data p of Some pd \<Rightarrow> pd_username pd = u | None \<Rightarrow> False))"

text \<open>\<open>parseInt(x) || d\<close> for an integer \<open>x\<close>.\<close>

definition or_default :: "int \<Rightarrow> int \<Rightarrow> int" where
  "or_default x d = (if x = 0 then d else x)"

text \<open>Substring tests (\<open>String.prototype.includes\<close>).\<close>

fun starts_with :: "string \<Rightarrow> string \<Rightarrow> bool" where
  "starts_with [] s = True"
| "starts_with (c # cs) [] = False"
| "starts_with (c # cs) (d # ds) = (c = d \<and> starts_with cs ds)"

fun includes_str :: "string \<Rightarrow> string \<Rightarrow> bool" where
  "includes_str [] needle = (needle = [])"
| "includes_str (c # cs) needle = (starts_with needle (c # cs) \<or> includes_str cs needle)"

text \<open>\<open>priceMap.KEY || dflt\<close>: an absent price and the price 0 give the default.\<close>

definition price_or :: "(string \<times> int) list \<Rightarrow> string \<Rightarrow> int \<Rightarrow> int" where
  "price_or priceMap key dflt =
     (case map_of priceMap key of Some v \<Rightarrow> if v = 0 then dflt else v | None \<Rightarrow> dflt)"

definition basePrice_of :: "(string \<times> int) list \<Rightarrow> string \<Rightarrow> int" where
  "basePrice_of priceMap pid =
     (if pid = ''panel-1gb'' then price_or priceMap ''PANEL_1GB'' 3000
      else if pid = ''panel-2gb'' then price_or priceMap ''PANEL_2GB'' 5000
      else if pid = ''panel-3gb'' then price_or priceMap ''PANEL_3GB'' 7000
      else if pid = ''panel-4gb'' then price_or priceMap ''PANEL_4GB'' 9000
      else if pid = ''panel-5gb'' then price_or priceMap ''PANEL_5GB'' 11000
      else if pid = ''panel-6gb'' then price_or priceMap ''PANEL_6GB'' 14000
      else if pid = ''panel-7gb'' then price_or priceMap ''PANEL_7GB'' 18000
      else if pid = ''panel-premium'' then price_or priceMap ''PANEL_PREMIUM'' 30000
      else 0)"

text \<open>
  Lines 1962--1983 of \<open>renewPanel\<close>: the product tier inferred from the stored \<open>specs\<close> of
  the subscription \<open>server\<close>, whose \<open>panel_data\<close> is \<open>pd\<close>. \<open>ram_raw\<close> is stored as a string of
  digits, which is truthy, so \<open>ram\<close> is \<open>ram_raw\<close> when that is present and the display
  \<open>specs.ram\<close> otherwise; neither is the number that the strict comparisons \<open>ram === 1500\<close>
  test for, and no display is a string of digits, so \<open>ram === '1500'\<close> holds exactly when
  \<open>ram_raw\<close> is \<open>'1500'\<close>. The display \<open>'1.5GB'\<close> is \<open>GB 1500\<close>.
\<close>

definition productId_of :: "subscription \<Rightarrow> panel_data \<Rightarrow> string" where
  "productId_of server pd =
     (let specs_ram = (case specs pd of Some sp \<Rightarrow> Some (ram sp) | None \<Rightarrow> None);
          raw = (case specs pd of Some sp \<Rightarrow> ram_raw sp | None \<Rightarrow> None)
      in if specs_ram = Some Unlimited \<or> includes_str (product_name server) ''Unlimited''
         then ''panel-premium''
         else if raw = Some 1500 \<or> specs_ram = Some (GB 1500) then ''panel-1gb''
         else if raw = Some 3500 \<or> specs_ram = Some (GB 3500) then ''panel-2gb''
         else if raw = Some 4000 \<or> specs_ram = Some (GB 4000) then ''panel-3gb''
         else if raw = Some 5000 then ''panel-4gb''
         else if raw = Some 6000 \<or> specs_ram = Some (GB 6000) then ''panel-5gb''
         else if raw = Some 7000 then ''panel-6gb''
         else if raw = Some 8000 \<or> specs_ram = Some (GB 8000) then ''panel-7gb''
         else ''panel-1gb'')"

text \<open>
  Lines 2000--2011 of \<open>renewPanel\<close>: the subscription \<open>server\<close>, whose \<open>panel_data\<close> is \<open>pd\<close>
  and whose stored expiry is \<open>expires\<close>, after the extension, and the new expiry. The
  clock is read twice, for the comparison (\<open>now1\<close>) and for the assignment (\<open>now2\<close>).
  \<open>None\<close> is the \<open>RangeError\<close> of \<open>toISOString\<close> for a new expiry outside the range of
  \<open>Date\<close>.
\<close>

definition extend_subscription ::
  "time \<Rightarrow> time \<Rightarrow> order \<Rightarrow> subscription \<Rightarrow> panel_data \<Rightarrow> time
     \<Rightarrow> (subscription \<times> time) option" where
  "extend_subscription now1 now2 orderData server pd expires =
     (let currentExpire = (if expires < now1 then now2 else expires);
          addDays = or_default (order_days orderData) 30
      in (case add_days currentExpire addDays of
            None \<Rightarrow> None
          | Some newExpire \<Rightarrow>
              Some (server\<lparr> panel_data := Some (pd\<lparr> expires_at := At newExpire \<rparr>),
                            days := or_default (days server) 0 + addDays,
                            suspend_by := None \<rparr>,
                    newExpire)))"

text \<open>
  \<open>renewPanel(orderData)\<close>. The function calls itself after resolving the server by
  username, on a database that it loads again, so the recursion is bounded by fuel and
  \<open>None\<close> stands for a call that has not returned. The price table is
  \<open>settings.PRICES || config.PRICES\<close>; when neither is defined, reading the price of the
  tier throws a \<open>TypeError\<close>, before anything is written. The tier is always one of the
  eight that have a price, so the initial \<open>basePrice = 3000\<close> is never kept. A stored
  subscription without \<open>expires_at\<close> has the expiry \<open>NaN\<close> and makes \<open>toISOString\<close> throw a
  \<open>RangeError\<close>, as does a new expiry outside the range of \<open>Date\<close>; \<open>orderData.basePrice\<close> is
  set by then. The result is the value returned or the error thrown, the order as
  mutated, the settings cache and the calls.
\<close>

fun renewPanel ::
  "nat \<Rightarrow> settings \<Rightarrow> time \<Rightarrow> time \<Rightarrow> remote \<Rightarrow> cache \<times> call list \<Rightarrow> order
     \<Rightarrow> ((error + panel_data) \<times> order \<times> cache \<times> call list) option" where
  "renewPanel 0 config now1 now2 env w orderData = None"
| "renewPanel (Suc fuel) config now1 now2 env w orderData =
     (case w of (settingsCache, tr) \<Rightarrow>
      (case loadServerDatabase env tr of (db, tr1) \<Rightarrow>
        (case findIndex (by_server_id (order_server_id orderData)) db of
           None \<Rightarrow>
             (case (if order_username orderData \<noteq> []
                    then findIndex (by_username (order_username orderData)) db
                    else None) of
                Some (j, p) \<Rightarrow>
                  (case panel_data p of
                     None \<Rightarrow> Some (Inl TypeError, orderData, settingsCache, tr1)
                   | Some pd \<Rightarrow>
                       renewPanel fuel config now1 now2 env (settingsCache, tr1)
                         (orderData\<lparr> order_server_id := server_id pd \<rparr>))
              | None \<Rightarrow> Some (Inl NotInDatabase, orderData, settingsCache, tr1))
         | Some (serverIndex, server) \<Rightarrow>
             (case panel_data server of
                None \<Rightarrow> Some (Inl TypeError, orderData, settingsCache, tr1)
              | Some pd \<Rightarrow>
                  (case loadSettings config now1 env (settingsCache, tr1) of
                     (settings, cache2, tr2) \<Rightarrow>
                  (case (case PRICES settings of Some m \<Rightarrow> Some m | None \<Rightarrow> PRICES config) of
                     None \<Rightarrow> Some (Inl TypeError, orderData, cache2, tr2)
                   | Some priceMap \<Rightarrow>
                  (let productId = productId_of server pd;
                       orderData1 = orderData\<lparr> order_basePrice :=
                                      Some (basePrice_of priceMap productId) \<rparr>
                   in
                       (case getTime (expires_at pd) of
                          None \<Rightarrow> Some (Inl RangeError, orderData1, cache2, tr2)
                        | Some expires \<Rightarrow>
                            (case extend_subscription now1 now2 orderData1 server pd expires of
                               None \<Rightarrow> Some (Inl RangeError, orderData1, cache2, tr2)
                             | Some (server1, newExpire) \<Rightarrow>
                                 (case saveServerDatabase config now2 env (cache2, tr2)
                                         (db[serverIndex := server1]) of
                                    (cache3, tr3) \<Rightarrow>
                                      (case perform env tr3
                                              (Unsuspend (order_server_id orderData1)) of
                                         (r, tr4) \<Rightarrow>
                                           Some (Inr \<lparr> pd_username = username server1,
                                                   pd_password = None,
                                                   server_id = order_server_id orderData1,
                                                   server_name = None, owner_id = None,
                                                   owner_email = None, expires_at = Absent,
                                                   specs = None,
                                                   new_expiry = Some newExpire,
                                                   product_id = Some productId \<rparr>,
                                                 orderData1, cache3, tr4))))))))))))"

section \<open>Provisioning\<close>

text \<open>
  The resource limits \<open>(ram, disk, cpu)\<close> of a product label: the first tier label that
  the product name contains, and the smallest tier for a label that matches none (the
  table has no entry under such a name).
\<close>

definition spec_of :: "string \<Rightarrow> int \<times> int \<times> int" where
  "spec_of product =
     (if includes_str product ''1GB'' then (1500, 3000, 100)
      else if includes_str product ''2GB'' then (3500, 6000, 190)
      else if includes_str product ''3GB'' then (4000, 7000, 250)
      else if includes_str product ''4GB'' then (5000, 9000, 290)
      else if includes_str product ''5GB'' then (6000, 13000, 330)
      else if includes_str product ''6GB'' then (7000, 15000, 450)
      else if includes_str product ''7GB'' then (8000, 17000, 500)
      else if includes_str product ''UNLIMITED'' \<or> includes_str product ''UNLI'' then (0, 0, 0)
      else if product = ''Panel 1GB RAM'' then (1500, 3000, 100)
      else if product = ''Panel 2GB RAM'' then (3500, 6000, 190)
      else if product = ''Panel 3GB RAM'' then (4000, 7000, 250)
      else if product = ''Panel 4GB RAM'' then (5000, 9000, 290)
      else if product = ''Panel 5GB RAM'' then (6000, 13000, 330)
      else if product = ''Panel 6GB RAM'' then (7000, 15000, 450)
      else if product = ''Panel 7GB RAM'' then (8000, 17000, 500)
      else if product = ''Panel UNLIMITED'' then (0, 0, 0)
      else (1500, 3000, 100))"

text \<open>
  \<open>createRealPterodactylPanel(orderData)\<close>: a rejected promise and an \<open>errors\<close> body both
  throw; a body of another shape is read as far as the code reads it. An expiry outside
  the range of \<open>Date\<close> makes the \<open>toISOString\<close> of the returned object throw a
  \<open>RangeError\<close>, after the account and the server were created. The display name,
  the docker image and the other constants of the server payload are left out of the
  \<open>CreateServer\<close> call, which carries the owner, the name of the owner and the limits.
\<close>

definition createRealPterodactylPanel ::
  "time \<Rightarrow> remote \<Rightarrow> call list \<Rightarrow> order \<Rightarrow> (failure + panel_data) \<times> call list" where
  "createRealPterodactylPanel now env tr orderData =
     (case (case order_password orderData of
              Some pw \<Rightarrow> if pw \<noteq> [] then (pw, tr) else
                 (case perform env tr RandomPassword of
                    (Password s, tr') \<Rightarrow> (s, tr') | (_, tr') \<Rightarrow> ([], tr'))
            | None \<Rightarrow>
                 (case perform env tr RandomPassword of
                    (Password s, tr') \<Rightarrow> (s, tr') | (_, tr') \<Rightarrow> ([], tr'))) of
        (pass, tr0) \<Rightarrow>
     (case spec_of (order_product_name orderData) of (ramv, diskv, cpuv) \<Rightarrow>
     (case perform env tr0 (ListUsers (order_username orderData)) of (checkUserRes, tr1) \<Rightarrow>
      if \<not> resolved checkUserRes then (Inl RemoteRejected, tr1)
      else (case (case checkUserRes of UserList (u # us) \<Rightarrow> Some u | _ \<Rightarrow> None) of
        Some existing \<Rightarrow> (Inl (DuplicateUser existing), tr1)
      | None \<Rightarrow>
     (case perform env tr1 (CreateUser (order_username orderData)
              (order_username orderData @ ''@gmail.com'') pass) of (userRes, tr2) \<Rightarrow>
      (case userRes of
         UserAttributes userId uname email \<Rightarrow>
           (case perform env tr2 GetEgg of (eggRes, tr3) \<Rightarrow>
            if \<not> resolved eggRes then (Inl RemoteRejected, tr3)
            else if eggRes = Errors then (Inl RemoteErrors, tr3)
            else
              (case perform env tr3
                      (CreateServer userId (order_username orderData) ramv diskv cpuv) of
                 (serverRes, tr4) \<Rightarrow>
                   (case serverRes of
                      ServerAttributes sid sname \<Rightarrow>
                       (case add_days now (order_days orderData) of
                          None \<Rightarrow> (Inl (Thrown RangeError), tr4)
                        | Some expiresAt \<Rightarrow>
                        (Inr \<lparr> pd_username = uname, pd_password = Some pass,
                               server_id = Some sid, server_name = Some sname,
                               owner_id = None, owner_email = None,
                               expires_at = At expiresAt,
                               specs = Some \<lparr>
                                 ram = (if ramv = 0 then Unlimited else GB ramv),
                                 cpu = (if cpuv = 0 then Unlimited else Percent cpuv),
                                 disk = Some (if diskv = 0 then Unlimited else GB diskv),
                                 ram_raw = Some ramv, disk_raw = Some diskv,
                                 cpu_raw = Some cpuv \<rparr>,
                               new_expiry = None, product_id = None \<rparr>, tr4))
                    | Errors \<Rightarrow> (Inl RemoteErrors, tr4)
                    | _ \<Rightarrow> (Inl RemoteRejected, tr4))))
       | Errors \<Rightarrow> (Inl RemoteErrors, tr2)
       | _ \<Rightarrow> (Inl RemoteRejected, tr2)))))))"

section \<open>The payment checks\<close>

text \<open>The state that the request handlers share: settings cache, order cache, calls.\<close>

record server_state =
  settingsCache :: cache
  panelsStorage :: order_cache
  calls :: "call list"

text \<open>Assignment to the order object that the cache holds under \<open>key\<close>.\<close>

fun put_order :: "string \<Rightarrow> order \<Rightarrow> order_cache \<Rightarrow> order_cache" where
  "put_order key v [] = []"
| "put_order key v ((k, x) # rest) =
     (if k = key then (k, v) # rest else (k, x) # put_order key v rest)"

text \<open>
  The provisioning step of both payment checks: \<open>renewPanel\<close> for an order of type
  \<open>renewal\<close>, \<open>createRealPterodactylPanel\<close> otherwise. \<open>None\<close> stands for a renewal that
  has not returned within the fuel.
\<close>

definition provision ::
  "nat \<Rightarrow> settings \<Rightarrow> time \<Rightarrow> remote \<Rightarrow> cache \<times> call list \<Rightarrow> order
     \<Rightarrow> ((failure + panel_data) \<times> order \<times> cache \<times> call list) option" where
  "provision fuel config now env w orderData =
     (if order_type orderData = ''renewal'' then
        (case renewPanel fuel config now now env w orderData of
           None \<Rightarrow> None
         | Some (Inl e, orderData1, c, tr) \<Rightarrow> Some (Inl (Thrown e), orderData1, c, tr)
         | Some (Inr pd, orderData1, c, tr) \<Rightarrow> Some (Inr pd, orderData1, c, tr))
      else
        (case createRealPterodactylPanel now env (snd w) orderData of
           (r, tr) \<Rightarrow> Some (r, orderData, fst w, tr)))"

record check_response =
  success :: bool
  transaction :: "string option"
  resp_panel_data :: "panel_data option"
  resp_panel_error :: "failure option"
  order_status_sent :: "string option"

datatype http = Status400 | NotFound404 | Status500 | Json check_response

text \<open>
  The write of \<open>app.get('/api/check-payment')\<close> after a successful provisioning: a
  renewal adds the days again and copies the new expiry to the subscription found by
  \<open>server_id\<close>; a new order appends its subscription.
\<close>

definition record_subscription ::
  "string \<Rightarrow> order \<Rightarrow> panel_data \<Rightarrow> subscription list \<Rightarrow> subscription list" where
  "record_subscription oid orderData panelData currentDb =
     (if order_type orderData = ''renewal'' then
        (case findIndex (by_server_id (order_server_id orderData)) currentDb of
           Some (existingIdx, p) \<Rightarrow>
             (case panel_data p of
                Some pd \<Rightarrow>
                  currentDb[existingIdx :=
                    p\<lparr> days := or_default (days p) 0 + order_days orderData,
                       panel_data := Some (pd\<lparr> expires_at :=
                         (case new_expiry panelData of Some t \<Rightarrow> At t | None \<Rightarrow> Absent) \<rparr>) \<rparr>]
              | None \<Rightarrow> currentDb)
         | None \<Rightarrow> currentDb)
      else
        currentDb @
          [\<lparr> sub_id = ''ORDER-'' @ oid, username = pd_username panelData,
             product_name = order_product_name orderData,
             days = or_default (order_days orderData) 30,
             password = (case pd_password panelData of Some pw \<Rightarrow> pw | None \<Rightarrow> []),
             created_at = (case order_completed_at orderData of Some t \<Rightarrow> t | None \<Rightarrow> 0),
             status = ''active'', suspend_by = None,
             panel_data = Some panelData \<rparr>])"

text \<open>
  \<open>app.get('/api/check-payment')\<close> for a request that carries \<open>order_id\<close>. The gateway
  replies \<open>Transaction status\<close>; a resolved reply of another shape has no transaction. A
  rejected gateway call enters the outer \<open>catch\<close>.
\<close>

definition check_payment ::
  "nat \<Rightarrow> settings \<Rightarrow> time \<Rightarrow> remote \<Rightarrow> server_state \<Rightarrow> string
     \<Rightarrow> (http \<times> server_state) option" where
  "check_payment fuel config now env st oid =
     (case map_of (panelsStorage st) oid of
        None \<Rightarrow> Some (NotFound404, st)
      | Some orderData \<Rightarrow>
          (case perform env (calls st) (TransactionDetail (order_amount orderData) oid) of
             (r, tr1) \<Rightarrow>
               if \<not> resolved r then
                 Some (if order_status orderData = ''completed''
                       then Json \<lparr> success = True, transaction = Some ''completed'',
                                   resp_panel_data = order_panel_data orderData,
                                   resp_panel_error = None,
                                   order_status_sent = Some ''completed'' \<rparr>
                       else Status500,
                       st\<lparr> calls := tr1 \<rparr>)
               else
                 (let status = (case r of Transaction s \<Rightarrow> s | _ \<Rightarrow> None) in
                  if status = Some ''completed'' \<and> order_panel_data orderData = None then
                    (case provision fuel config now env (settingsCache st, tr1) orderData of
                       None \<Rightarrow> None
                     | Some (Inr panelData, orderData1, c2, tr2) \<Rightarrow>
                         (let orderData2 = orderData1\<lparr> order_panel_data := Some panelData,
                                order_status := ''completed'',
                                order_completed_at := Some now \<rparr> in
                          (case loadServerDatabase env tr2 of (currentDb, tr3) \<Rightarrow>
                             (case saveServerDatabase config now env (c2, tr3)
                                     (record_subscription oid orderData2 panelData currentDb) of
                                (c4, tr4) \<Rightarrow>
                                  Some (Json \<lparr> success = True, transaction = status,
                                          resp_panel_data = Some panelData,
                                          resp_panel_error = None,
                                          order_status_sent = Some ''completed'' \<rparr>,
                                        \<lparr> settingsCache = c4,
                                          panelsStorage =
                                            put_order oid orderData2 (panelsStorage st),
                                          calls = tr4 \<rparr>))))
                     | Some (Inl panelError, orderData1, c2, tr2) \<Rightarrow>
                         Some (Json \<lparr> success = True, transaction = status,
                                 resp_panel_data = None,
                                 resp_panel_error = Some panelError,
                                 order_status_sent = None \<rparr>,
                               \<lparr> settingsCache = c2,
                                 panelsStorage =
                                   put_order oid
                                     (orderData1\<lparr> order_status := ''completed'',
                                        order_completed_at := Some now,
                                        order_panel_error := Some panelError \<rparr>)
                                     (panelsStorage st),
                                 calls = tr2 \<rparr>))
                  else
                    Some (Json \<lparr> success = True, transaction = status,
                            resp_panel_data = order_panel_data orderData,
                            resp_panel_error = None,
                            order_status_sent = Some (order_status orderData) \<rparr>,
                          st\<lparr> calls := tr1 \<rparr>))))"

text \<open>
  \<open>app.post('/api/manual-check')\<close> for a request that carries \<open>order_id\<close>. The stored
  \<open>panel_data\<close> is read only inside the branch of a completed transaction, and nothing
  is written to the database.
\<close>

definition manual_check ::
  "nat \<Rightarrow> settings \<Rightarrow> time \<Rightarrow> remote \<Rightarrow> server_state \<Rightarrow> string
     \<Rightarrow> (http \<times> server_state) option" where
  "manual_check fuel config now env st oid =
     (case map_of (panelsStorage st) oid of
        None \<Rightarrow> Some (NotFound404, st)
      | Some orderData \<Rightarrow>
          (case perform env (calls st) (TransactionDetail (order_amount orderData) oid) of
             (r, tr1) \<Rightarrow>
               if \<not> resolved r then
                 Some (if order_status orderData = ''completed''
                       then Json \<lparr> success = True, transaction = Some ''completed'',
                                   resp_panel_data = order_panel_data orderData,
                                   resp_panel_error = None,
                                   order_status_sent = Some ''completed'' \<rparr>
                       else Status500,
                       st\<lparr> calls := tr1 \<rparr>)
               else
                 (let status = (case r of Transaction s \<Rightarrow> s | _ \<Rightarrow> None) in
                  if status = Some ''completed'' then
                    (if order_panel_data orderData = None then
                       (case provision fuel config now env (settingsCache st, tr1) orderData of
                          None \<Rightarrow> None
                        | Some (Inr panelData, orderData1, c2, tr2) \<Rightarrow>
                            Some (Json \<lparr> success = True, transaction = status,
                                    resp_panel_data = Some panelData,
                                    resp_panel_error = None,
                                    order_status_sent = Some ''completed'' \<rparr>,
                                  \<lparr> settingsCache = c2,
                                    panelsStorage =
                                      put_order oid
                                        (orderData1\<lparr> order_panel_data := Some panelData,
                                           order_status := ''completed'',
                                           order_completed_at := Some now \<rparr>)
                                        (panelsStorage st),
                                    calls = tr2 \<rparr>)
                        | Some (Inl panelError, orderData1, c2, tr2) \<Rightarrow>
                            Some (Json \<lparr> success = True, transaction = status,
                                    resp_panel_data = None,
                                    resp_panel_error = Some panelError,
                                    order_status_sent = None \<rparr>,
                                  \<lparr> settingsCache = c2,
                                    panelsStorage =
                                      put_order oid
                                        (orderData1\<lparr> order_status := ''completed'',
                                           order_completed_at := Some now,
                                           order_panel_error := Some panelError \<rparr>)
                                        (panelsStorage st),
                                    calls = tr2 \<rparr>))
                     else
                       Some (Json \<lparr> success = True, transaction = status,
                               resp_panel_data = order_panel_data orderData,
                               resp_panel_error = None,
                               order_status_sent = Some (order_status orderData) \<rparr>,
                             st\<lparr> calls := tr1 \<rparr>))
                  else
                    Some (Json \<lparr> success = True, transaction = status,
                            resp_panel_data = None,
                            resp_panel_error = None,
                            order_status_sent = Some (order_status orderData) \<rparr>,
                          st\<lparr> calls := tr1 \<rparr>))))"

text \<open>
  A handler runs until its next \<open>await\<close> and then gives way to the other requests. The
  test \<open>!orderData.panel_data\<close> of \<open>app.get('/api/check-payment')\<close> is made when the
  gateway has answered; the assignment to \<open>orderData.panel_data\<close> is made when the
  provisioning, which awaits its remote calls, has returned. \<open>check_payment_poll\<close> is the
  handler up to the test, returning the response or the transaction status with which the
  provisioning is entered; \<open>check_payment_provision\<close> is the handler from there on, on
  the order object \<open>orderData\<close>, which is shared with every other request for that order.
\<close>

definition check_payment_poll ::
  "remote \<Rightarrow> server_state \<Rightarrow> string \<Rightarrow> (http + string option) \<times> server_state" where
  "check_payment_poll env st oid =
     (case map_of (panelsStorage st) oid of
        None \<Rightarrow> (Inl NotFound404, st)
      | Some orderData \<Rightarrow>
          (case perform env (calls st) (TransactionDetail (order_amount orderData) oid) of
             (r, tr1) \<Rightarrow>
               if \<not> resolved r then
                 (Inl (if order_status orderData = ''completed''
                       then Json \<lparr> success = True, transaction = Some ''completed'',
                                   resp_panel_data = order_panel_data orderData,
                                   resp_panel_error = None,
                                   order_status_sent = Some ''completed'' \<rparr>
                       else Status500),
                  st\<lparr> calls := tr1 \<rparr>)
               else
                 (let status = (case r of Transaction s \<Rightarrow> s | _ \<Rightarrow> None) in
                  if status = Some ''completed'' \<and> order_panel_data orderData = None then
                    (Inr status, st\<lparr> calls := tr1 \<rparr>)
                  else
                    (Inl (Json \<lparr> success = True, transaction = status,
                            resp_panel_data = order_panel_data orderData,
                            resp_panel_error = None,
                            order_status_sent = Some (order_status orderData) \<rparr>),
                     st\<lparr> calls := tr1 \<rparr>))))"

definition check_payment_provision ::
  "nat \<Rightarrow> settings \<Rightarrow> time \<Rightarrow> remote \<Rightarrow> server_state \<Rightarrow> string \<Rightarrow> string option \<Rightarrow> order
     \<Rightarrow> (http \<times> server_state) option" where
  "check_payment_provision fuel config now env st oid txn orderData =
     (case provision fuel config now env (settingsCache st, calls st) orderData of
        None \<Rightarrow> None
      | Some (Inr panelData, orderData1, c2, tr2) \<Rightarrow>
          (let orderData2 = orderData1\<lparr> order_panel_data := Some panelData,
                 order_status := ''completed'',
                 order_completed_at := Some now \<rparr> in
           (case loadServerDatabase env tr2 of (currentDb, tr3) \<Rightarrow>
              (case saveServerDatabase config now env (c2, tr3)
                      (record_subscription oid orderData2 panelData currentDb) of
                 (c4, tr4) \<Rightarrow>
                   Some (Json \<lparr> success = True, transaction = txn,
                           resp_panel_data = Some panelData,
                           resp_panel_error = None,
                           order_status_sent = Some ''completed'' \<rparr>,
                         \<lparr> settingsCache = c4,
                           panelsStorage =
                             put_order oid orderData2 (panelsStorage st),
                           calls = tr4 \<rparr>))))
      | Some (Inl panelError, orderData1, c2, tr2) \<Rightarrow>
          Some (Json \<lparr> success = True, transaction = txn,
                  resp_panel_data = None,
                  resp_panel_error = Some panelError,
                  order_status_sent = None \<rparr>,
                \<lparr> settingsCache = c2,
                  panelsStorage =
                    put_order oid
                      (orderData1\<lparr> order_status := ''completed'',
                         order_completed_at := Some now,
                         order_panel_error := Some panelError \<rparr>)
                      (panelsStorage st),
                  calls = tr2 \<rparr>))"

section \<open>POST /admin/api/panels/delete/:serverId\<close>

datatype api_message = NoMessage | DeletedFromPanel | AlreadyGone | DeleteFailed

record delete_response =
  delete_success :: bool
  api_message_sent :: api_message
  owner_status :: cleanup
  local_db_deleted :: bool

text \<open>
  The administrator's deletion of a server. The owner id comes from the remote server
  or, when that lookup throws, from the local record. The remote deletion is attempted in
  either case; a 204 and a 404 both count as \<open>apiSuccess\<close>. The response always carries
  \<open>success: true\<close>: every call sits in its own \<open>try\<close>, and the store adapter throws
  nothing, so the outer \<open>catch\<close> is never entered.
\<close>

definition admin_delete ::
  "settings \<Rightarrow> time \<Rightarrow> remote \<Rightarrow> server_state \<Rightarrow> int \<Rightarrow> delete_response \<times> server_state" where
  "admin_delete config now env st sid =
     (case perform env (calls st) (GetServer (Some sid)) of (infoResponse, tr1) \<Rightarrow>
      (case (case infoResponse of
               ServerOwner n \<Rightarrow> (Some n, tr1)
             | _ \<Rightarrow>
                 (case loadServerDatabase env tr1 of (currentDb, tr') \<Rightarrow>
                    (case findIndex (by_server_id (Some sid)) currentDb of
                       Some (i, localData) \<Rightarrow>
                         (case panel_data localData of
                            Some pd \<Rightarrow> (if truthy (owner_id pd) then owner_id pd else None, tr')
                          | None \<Rightarrow> (None, tr'))
                     | None \<Rightarrow> (None, tr')))) of
         (ownerId, tr2) \<Rightarrow>
      (case perform env tr2 (DeleteServer (Some sid)) of (deleteResponse, tr3) \<Rightarrow>
      (case (if deleteResponse = Done then (True, DeletedFromPanel)
             else if deleteResponse = NotFound then (True, AlreadyGone)
             else if deleteResponse = Failed then (False, DeleteFailed)
             else (False, NoMessage)) of
         (apiSuccess, apiMessage) \<Rightarrow>
      (case (case ownerId of
               Some n \<Rightarrow> if truthy ownerId \<and> apiSuccess
                          then owner_cleanup env tr3 (Some sid) n else (OwnerKept, tr3)
             | None \<Rightarrow> (OwnerKept, tr3)) of
         (ownerMessage, tr4) \<Rightarrow>
      (case loadServerDatabase env tr4 of (currentDb, tr5) \<Rightarrow>
      (case (case findIndex (by_server_id (Some sid)) currentDb of
               Some (serverIndex, p) \<Rightarrow>
                 (True, saveServerDatabase config now env (settingsCache st, tr5)
                          (splice1 serverIndex currentDb))
             | None \<Rightarrow> (False, settingsCache st, tr5)) of
         (localDeleted, c6, tr6) \<Rightarrow>
           (\<lparr> delete_success = True, api_message_sent = apiMessage,
              owner_status = ownerMessage, local_db_deleted = localDeleted \<rparr>,
            \<lparr> settingsCache = c6,
              panelsStorage = forget_order (Some sid) (panelsStorage st),
              calls = tr6 @ [Respond] \<rparr>))))))))"

section \<open>The price validator\<close>

text \<open>
  The body of a price request. \<open>body_days\<close> and \<open>body_amount\<close> hold the integer that
  \<open>parseInt\<close> reads from the field, \<open>None\<close> for a field that is absent.
\<close>

record price_body =
  body_product_id :: "string option"
  body_days :: "int option"
  body_amount :: "int option"

record price_error =
  expected :: int
  received :: int
  base_price :: int
  error_days :: int
  price_per_day :: rat

record priced =
  calculatedPrice :: int
  basePrice :: int
  pricePerDay :: rat

datatype price_check = Invalid400 price_error | Next "priced option"

text \<open>The arithmetic of \<open>validatePrice\<close>: \<open>Math.ceil((basePrice / 30) * days)\<close>.\<close>

definition calculate :: "int \<Rightarrow> int \<Rightarrow> priced" where
  "calculate base d =
     (let perDay = fl (of_int base / 30)
      in \<lparr> calculatedPrice = \<lceil>fl (perDay * of_int d)\<rceil>, basePrice = base,
           pricePerDay = perDay \<rparr>)"

definition validatePrice ::
  "settings \<Rightarrow> time \<Rightarrow> remote \<Rightarrow> cache \<times> call list \<Rightarrow> price_body
     \<Rightarrow> price_check \<times> cache \<times> call list" where
  "validatePrice config now env w body =
     (case loadSettings config now env w of (settings, c, tr) \<Rightarrow>
        (case (case PRICES settings of Some m \<Rightarrow> Some m | None \<Rightarrow> PRICES config) of
           None \<Rightarrow> (Next None, c, tr)
         | Some priceMap \<Rightarrow>
             (case body_product_id body of
                None \<Rightarrow> (Next None, c, tr)
              | Some pid \<Rightarrow>
                  if pid = [] then (Next None, c, tr)
                  else
                    (let d = (case body_days body of Some n \<Rightarrow> or_default n 30 | None \<Rightarrow> 30);
                         p = calculate (basePrice_of priceMap pid) d
                     in (case body_amount body of
                           Some a \<Rightarrow>
                             if a \<noteq> 0 \<and> a \<noteq> calculatedPrice p
                             then (Invalid400 \<lparr> expected = calculatedPrice p, received = a,
                                     base_price = basePrice p, error_days = d,
                                     price_per_day = pricePerDay p \<rparr>, c, tr)
                             else (Next (Some p), c, tr)
                         | None \<Rightarrow> (Next (Some p), c, tr))))))"

section \<open>Auxiliary notions for the statements\<close>




text \<open>The documents written by the \<open>updateData\<close> calls of a trace, in order.\<close>

fun updates_of :: "call list \<Rightarrow> entry list list" where
  "updates_of [] = []"
| "updates_of (UpdateData d # cs) = d # updates_of cs"
| "updates_of (_ # cs) = updates_of cs"

text \<open>The server ids of the suspend calls of a trace, in order.\<close>

fun suspends_of :: "call list \<Rightarrow> int option list" where
  "suspends_of [] = []"
| "suspends_of (Suspend sid # cs) = sid # suspends_of cs"
| "suspends_of (_ # cs) = suspends_of cs"


definition demo_config :: settings where
  "demo_config = \<lparr> WEBSITE_LOGO = [], WEBSITE_BANNER = [], PRICES = Some [],
     ANNOUNCEMENT = ([], False), MAINTENANCE_MODE = False \<rparr>"

text \<open>A subscription under the manual lock of an administrator.\<close>

definition admin_locked :: "subscription \<Rightarrow> bool" where
  "admin_locked srv = (suspend_by srv = Some ''admin'')"

definition demo_panel :: panel_data where
  "demo_panel = \<lparr> pd_username = ''alice'', pd_password = Some ''secret'',
     server_id = Some 7, server_name = Some ''Alice Server'', owner_id = Some 3,
     owner_email = None, expires_at = At 1000, specs = None, new_expiry = None,
     product_id = None \<rparr>"

definition demo_sub :: subscription where
  "demo_sub = \<lparr> sub_id = ''ORDER-1'', username = ''alice'', product_name = ''Panel 1GB RAM'',
     days = 30, password = ''secret'', created_at = 0, status = ''active'',
     suspend_by = None, panel_data = Some demo_panel \<rparr>"

definition demo_order :: order where
  "demo_order = \<lparr> order_id = ''A1'', order_username = ''alice'',
     order_product_name = ''Panel 1GB RAM'', order_amount = 3000, order_days = 15,
     order_status = ''pending'', order_type = ''renewal'', order_created_at = Some 0,
     order_completed_at = None, order_panel_data = None, order_panel_error = None,
     order_server_id = None, order_password = None, order_basePrice = None \<rparr>"



text \<open>A remote that gives the same reply to every call.\<close>

definition always :: "reply \<Rightarrow> remote" where
  "always r h = r"

text \<open>
  A remote whose store holds \<open>doc\<close> and rejects every write, and whose control plane
  accepts every request.
\<close>

definition read_only_store :: "entry list \<Rightarrow> remote" where
  "read_only_store doc h =
     (case last h of FetchData \<Rightarrow> Document doc | UpdateData d \<Rightarrow> Failed | _ \<Rightarrow> Done)"

text \<open>The demonstration subscription under the manual lock of an administrator.\<close>

definition demo_locked :: subscription where
  "demo_locked = demo_sub\<lparr> sub_id := ''ORDER-2'', suspend_by := Some ''admin'' \<rparr>"

definition fresh_sweep :: sweep where
  "fresh_sweep = \<lparr> changed = False, panelsToDelete = [], sweep_calls = [] \<rparr>"

text \<open>Two remotes that differ at most in their replies to \<open>updateData\<close>.\<close>

definition same_but_writes :: "remote \<Rightarrow> remote \<Rightarrow> bool" where
  "same_but_writes env env' =
     (\<forall>h c. (\<forall>d. c \<noteq> UpdateData d) \<longrightarrow> env (h @ [c]) = env' (h @ [c]))"

text \<open>The store of \<open>read_only_store\<close> with writes that succeed.\<close>

definition writable_store :: "entry list \<Rightarrow> remote" where
  "writable_store doc h = (case last h of FetchData \<Rightarrow> Document doc | _ \<Rightarrow> Done)"

text \<open>
  A store that holds \<open>doc\<close> until it is written and then the document written last, a
  gateway that reports every transaction as completed, and a control plane that accepts
  every request.
\<close>

definition live_store :: "entry list \<Rightarrow> remote" where
  "live_store doc h =
     (case last h of
        FetchData \<Rightarrow> Document (if updates_of h = [] then doc else last (updates_of h))
      | TransactionDetail a k \<Rightarrow> Transaction (Some ''completed'')
      | _ \<Rightarrow> Done)"

text \<open>
  The sweeper, in the words of the specification. A subscription is due for suspension
  at \<open>now\<close> when it is not under the manual lock, its \<open>suspend_by\<close> is not \<open>auto\<close> and its
  expiry is before \<open>now\<close>. The suspend pass visits the subscriptions in order: for one
  that is due it issues a suspend call and marks the subscription \<open>auto\<close> when the call
  succeeds, leaving it unchanged otherwise; for any other it does nothing.
\<close>

definition due :: "time \<Rightarrow> subscription \<Rightarrow> bool" where
  "due now srv =
     (\<not> admin_locked srv \<and> suspend_by srv \<noteq> Some ''auto''
      \<and> (case panel_data srv of
            Some pd \<Rightarrow> (case getTime (expires_at pd) of Some e \<Rightarrow> e < now | None \<Rightarrow> False)
          | None \<Rightarrow> False))"

text \<open>
  A subscription is overdue for deletion when it is not under the manual lock and its
  expiry lies at least the grace period of whole days before \<open>now\<close>.
\<close>

definition overdue :: "time \<Rightarrow> int \<Rightarrow> subscription \<Rightarrow> bool" where
  "overdue now grace srv =
     (\<not> admin_locked srv
      \<and> (case panel_data srv of
            Some pd \<Rightarrow> (case getTime (expires_at pd) of
                          Some e \<Rightarrow> e < now \<and> grace \<le> (now - e) div DAY
                        | None \<Rightarrow> False)
          | None \<Rightarrow> False))"

definition sid_of :: "subscription \<Rightarrow> int option" where
  "sid_of srv = (case panel_data srv of Some pd \<Rightarrow> server_id pd | None \<Rightarrow> None)"

fun suspend_pass ::
  "time \<Rightarrow> remote \<Rightarrow> call list \<Rightarrow> subscription list \<Rightarrow> subscription list \<times> call list" where
  "suspend_pass now env tr [] = ([], tr)"
| "suspend_pass now env tr (srv # rest) =
     (if due now srv then
        (case suspend_pass now env (tr @ [Suspend (sid_of srv)]) rest of
           (rest1, tr1) \<Rightarrow>
             ((if resolved (env (tr @ [Suspend (sid_of srv)]))
               then srv\<lparr> suspend_by := Some ''auto'' \<rparr> else srv) # rest1, tr1))
      else
        (case suspend_pass now env tr rest of (rest1, tr1) \<Rightarrow> (srv # rest1, tr1)))"

text \<open>
  A database in which every subscription that is not under the manual lock has
  \<open>panel_data\<close>, so that no entry makes the first loop of the sweeper throw.
\<close>

definition well_formed :: "subscription list \<Rightarrow> bool" where
  "well_formed db = list_all (\<lambda>srv. admin_locked srv \<or> panel_data srv \<noteq> None) db"

text \<open>
  A subscription that the sweeper has suspended, one that has expired by two days, and a
  store that holds both and the locked one.
\<close>

definition demo_suspended :: subscription where
  "demo_suspended = demo_sub\<lparr> sub_id := ''ORDER-3'', suspend_by := Some ''auto'',
     panel_data := Some (demo_panel\<lparr> server_id := Some 9 \<rparr>) \<rparr>"

definition demo_doc :: "entry list" where
  "demo_doc = [Sub demo_locked, Sub demo_sub, Sub demo_suspended]"

text \<open>
  Renewal, in the words of the specification. The first entry of a list that satisfies a
  predicate is at index \<open>k\<close>; the target of a renewal order is the server of the order's
  \<open>server_id\<close> when a subscription has it, and otherwise the server of the first
  subscription with the order's username.
\<close>

fun first_at :: "('a \<Rightarrow> bool) \<Rightarrow> 'a list \<Rightarrow> nat \<Rightarrow> bool" where
  "first_at P [] k = False"
| "first_at P (x # xs) k = (case k of 0 \<Rightarrow> P x | Suc n \<Rightarrow> \<not> P x \<and> first_at P xs n)"

definition renewal_target :: "subscription list \<Rightarrow> order \<Rightarrow> int option \<Rightarrow> bool" where
  "renewal_target db orderData sid =
     (if list_ex (by_server_id (order_server_id orderData)) db
      then sid = order_server_id orderData
      else order_username orderData \<noteq> []
           \<and> (case find (by_username (order_username orderData)) db of
                 Some p \<Rightarrow> (case panel_data p of Some pd \<Rightarrow> sid = server_id pd | None \<Rightarrow> False)
               | None \<Rightarrow> False))"

text \<open>The gateway reports the transaction of the order as completed.\<close>

definition gateway_completed :: "remote \<Rightarrow> server_state \<Rightarrow> order \<Rightarrow> string \<Rightarrow> bool" where
  "gateway_completed env st orderData oid =
     (env (calls st @ [TransactionDetail (order_amount orderData) oid])
        = Transaction (Some ''completed''))"

definition gateway_reached :: "remote \<Rightarrow> server_state \<Rightarrow> order \<Rightarrow> string \<Rightarrow> bool" where
  "gateway_reached env st orderData oid =
     resolved (env (calls st @ [TransactionDetail (order_amount orderData) oid]))"

text \<open>The panel data that a response carries, \<open>None\<close> for a response without any.\<close>

definition sent_panel_data :: "http \<Rightarrow> panel_data option" where
  "sent_panel_data resp = (case resp of Json r \<Rightarrow> resp_panel_data r | _ \<Rightarrow> None)"

definition demo_paid_order :: order where
  "demo_paid_order = demo_order\<lparr> order_type := ''new'', order_status := ''completed'',
     order_panel_data := Some demo_panel \<rparr>"

definition demo_state :: server_state where
  "demo_state = \<lparr> settingsCache = None, panelsStorage = [(''A1'', demo_paid_order)],
     calls = [] \<rparr>"

definition demo_pending_state :: server_state where
  "demo_pending_state = \<lparr> settingsCache = None, panelsStorage = [(''A1'', demo_order)],
     calls = [] \<rparr>"

text \<open>
  Two requests \<open>GET /api/check-payment\<close> for one order that overlap: the second is
  answered by the gateway while the provisioning of the first awaits its first remote
  reply, and the calls of the first are served before those of the second. Each
  provisioning runs on the order object as the cache holds it at that time.
\<close>

definition overlapping_checks ::
  "nat \<Rightarrow> settings \<Rightarrow> time \<Rightarrow> remote \<Rightarrow> server_state \<Rightarrow> string
     \<Rightarrow> (http \<times> http \<times> server_state) option" where
  "overlapping_checks fuel config now env st oid =
     (case check_payment_poll env st oid of
        (Inl resp, st1) \<Rightarrow> None
      | (Inr status1, st1) \<Rightarrow>
     (case check_payment_poll env st1 oid of
        (Inl resp, st2) \<Rightarrow> None
      | (Inr status2, st2) \<Rightarrow>
     (case map_of (panelsStorage st2) oid of
        None \<Rightarrow> None
      | Some orderData \<Rightarrow>
     (case check_payment_provision fuel config now env st2 oid status1 orderData of
        None \<Rightarrow> None
      | Some (resp1, st3) \<Rightarrow>
     (case map_of (panelsStorage st3) oid of
        None \<Rightarrow> None
      | Some orderData' \<Rightarrow>
     (case check_payment_provision fuel config now env st3 oid status2 orderData' of
        None \<Rightarrow> None
      | Some (resp2, st4) \<Rightarrow> Some (resp1, resp2, st4)))))))"

text \<open>
  Two states of the sweeper's first loop that agree on everything but the indices of the
  queued entries.
\<close>

definition alike :: "sweep \<Rightarrow> sweep \<Rightarrow> bool" where
  "alike st st' =
     (changed st = changed st' \<and> sweep_calls st = sweep_calls st'
      \<and> map (\<lambda>q. (q_serverId q, q_username q)) (panelsToDelete st)
        = map (\<lambda>q. (q_serverId q, q_username q)) (panelsToDelete st'))"

section \<open>Exactness of the date arithmetic\<close>

text \<open>
  Integers below \<open>2^53\<close> in magnitude are binary64 values, so the rounding leaves them as
  they are, and the addition of a positive number of days to a time after the epoch is
  exact as long as the result is a time value.
\<close>

lemma bitlen_bounds:
  "0 < n \<Longrightarrow> 1 \<le> bitlen n \<and> 2 ^ nat (bitlen n - 1) \<le> n \<and> n < 2 ^ nat (bitlen n)"
proof (induction n rule: bitlen.induct)
  case (1 n)
  show ?case
  proof (cases "n div 2 = 0")
    case True
    with 1(2) have n1: "n = 1" by presburger
    have "bitlen 1 = 1" by (simp add: bitlen.simps)
    then show ?thesis using n1 by simp
  next
    case False
    with 1(2) have m: "0 < n div 2" by presburger
    from 1(1) 1(2) m have ih: "1 \<le> bitlen (n div 2)"
      "2 ^ nat (bitlen (n div 2) - 1) \<le> n div 2" "n div 2 < 2 ^ nat (bitlen (n div 2))"
      by auto
    have b: "bitlen n = bitlen (n div 2) + 1" using 1(2) by (subst bitlen.simps) simp
    define b0 where "b0 = nat (bitlen (n div 2) - 1)"
    have e1: "nat (bitlen (n div 2)) = Suc b0" using ih(1) by (simp add: b0_def)
    have e2: "nat (bitlen n - 1) = Suc b0" using ih(1) b by (simp add: b0_def)
    have e3: "nat (bitlen n) = Suc (Suc b0)" using ih(1) b by (simp add: b0_def)
    have l: "(2::int) ^ b0 \<le> n div 2" using ih(2) by (simp add: b0_def)
    have u: "n div 2 < (2::int) ^ Suc b0" using ih(3) e1 by simp
    have "(2::int) ^ Suc b0 \<le> n" using l by auto
    moreover have "n < (2::int) ^ Suc (Suc b0)" using u by auto
    ultimately show ?thesis using b ih(1) e2 e3 by simp
  qed
qed

lemma round_half_even_int: "round_half_even (of_int z) = z"
  by (simp add: round_half_even_def)

lemma fl_pos_int:
  assumes "0 < k" "k < 2 ^ 53"
  shows "fl_pos (of_int k) = of_int k"
proof -
  from bitlen_bounds [OF assms(1)] have b: "1 \<le> bitlen k" "2 ^ nat (bitlen k - 1) \<le> k"
    by auto
  have "(2::int) ^ nat (bitlen k - 1) < 2 ^ 53" using b(2) assms(2) by linarith
  from power_less_imp_less_exp [OF _ this] have "nat (bitlen k - 1) < 53" by simp
  then have le: "bitlen k - 1 \<le> 52" by linarith
  have bin: "binade (of_int k) = bitlen k - 1" using assms(1) by (simp add: binade_def)
  define m where "m = nat (52 - (bitlen k - 1))"
  have p: "pow2 (binade (of_int k) - 52) = 1 / 2 ^ m"
  proof (cases "bitlen k - 1 = 52")
    case True then show ?thesis using bin by (simp add: pow2_def m_def)
  next
    case False
    with le have "bitlen k - 1 - 52 < 0" by simp
    then show ?thesis using bin by (simp add: pow2_def m_def) 
  qed
  have q: "(of_int k :: rat) / (1 / 2 ^ m) = of_int (k * 2 ^ m)" by simp
  show ?thesis
    unfolding fl_pos_def Let_def p q round_half_even_int by simp
qed

lemma trunc_int: "trunc (of_int z) = z"
  by (simp add: trunc_def)

lemma fl_int: "\<bar>k\<bar> < 2 ^ 53 \<Longrightarrow> q = of_int k \<Longrightarrow> fl q = of_int k"
  using fl_pos_int [of k] fl_pos_int [of "- k"] by (auto simp add: fl_def)

lemma add_days_exact:
  assumes "0 \<le> base" "0 < d" "base + d * DAY \<le> MAX_TIME"
  shows "add_days base d = Some (base + d * DAY)"
proof -
  have d: "d * 86400000 \<le> 8640000000000000"
    using assms by (simp add: DAY_def MAX_TIME_def)
  have s1: "fl (of_int d * 24) = of_int (d * 24)"
    by (rule fl_int) (use assms(2) d in simp_all)
  have s2: "fl (of_int (d * 24) * 60) = of_int (d * 1440)"
    by (rule fl_int) (use assms(2) d in simp_all)
  have s3: "fl (of_int (d * 1440) * 60) = of_int (d * 86400)"
    by (rule fl_int) (use assms(2) d in simp_all)
  have s4: "fl (of_int (d * 86400) * 1000) = of_int (d * 86400000)"
    by (rule fl_int) (use assms(2) d in simp_all)
  have s5: "fl (of_int base + of_int (d * 86400000)) = of_int (base + d * 86400000)"
    by (rule fl_int) (use assms in \<open>simp_all add: DAY_def MAX_TIME_def\<close>)
  have r: "\<bar>of_int (base + d * 86400000) :: rat\<bar> \<le> of_int MAX_TIME"
    using assms unfolding of_int_abs [symmetric] of_int_le_iff
    by (simp add: DAY_def MAX_TIME_def)
  show ?thesis
    unfolding add_days_def Let_def s1 s2 s3 s4 s5 trunc_int using r by (simp add: DAY_def)
qed

section \<open>Status derivation is the priority table\<close>




text \<open>
  Claim C10. The response of the order-status endpoint does not depend on the stored
  passwords: two order caches that differ only in one order's \<open>password\<close> and in its
  \<open>panel_data.password\<close> give the same response, and the \<open>panel_data\<close> of the response is
  the five-field projection of the stored one.
\<close>

theorem order_endpoint_hides_passwords:
  "get_order (ps @ (k, orderData\<lparr> order_password := pw,
        order_panel_data := map_option (\<lambda>pd. pd\<lparr>pd_password := ppw\<rparr>) opd \<rparr>) # ps') k
   = get_order (ps @ (k, orderData\<lparr> order_password := pw',
        order_panel_data := map_option (\<lambda>pd. pd\<lparr>pd_password := ppw'\<rparr>) opd \<rparr>) # ps') k
   \<and> (\<exists>v. get_order ((k, orderData) # ps') k = OrderJson v
        \<and> view_panel_data v = map_option safe_of (order_panel_data orderData))"
  by (cases opd; cases "order_panel_data orderData"; cases "map_of ps k")
     (simp_all add: get_order_def safe_of_def map_add_def)

section \<open>Traces of the store adapter\<close>

lemma updates_of_append: "updates_of (xs @ ys) = updates_of xs @ updates_of ys"
  by (induction xs rule: updates_of.induct) simp_all

lemma fetchData_trace: "snd (fetchData env tr) = tr @ [FetchData]"
  by (simp add: fetchData_def perform_def split: reply.splits)

lemma loadServerDatabase_trace: "snd (loadServerDatabase env tr) = tr @ [FetchData]"
  using fetchData_trace [of env tr]
  by (cases "fetchData env tr") (simp add: loadServerDatabase_def)

lemma loadSettings_updates:
  "updates_of (snd (snd (loadSettings config now env (c, tr)))) = updates_of tr"
  using fetchData_trace [of env tr]
  by (auto simp: loadSettings_def updates_of_append split: option.splits prod.splits if_splits)

lemma saveServerDatabase_updates:
  "\<exists>cur. updates_of (snd (saveServerDatabase config now env (c, tr) data))
     = updates_of tr @ [map Sub data @ [SettingsEntry (Some cur)]]"
proof -
  obtain cur c' tr' where l: "loadSettings config now env (c, tr) = (cur, c', tr')"
    by (cases "loadSettings config now env (c, tr)")
  with loadSettings_updates [of config now env c tr] have "updates_of tr' = updates_of tr"
    by simp
  then show ?thesis
    by (simp add: saveServerDatabase_def l updateData_def perform_def updates_of_append)
qed

section \<open>The reconciler imports each unknown server once and saves once\<close>


















section \<open>The sweeper and the manual lock\<close>

lemma sweep_entry_admin:
  "admin_locked srv \<Longrightarrow> sweep_entry now grace env i srv st = Inr (srv, st)"
  by (simp add: sweep_entry_def admin_locked_def)

lemma sweep_entry_result:
  assumes "sweep_entry now grace env i srv st = Inr (srv1, st1)"
  shows "admin_locked srv1 = admin_locked srv"
    and "admin_locked srv \<Longrightarrow> srv1 = srv"
    and "panelsToDelete st1 = panelsToDelete st \<or>
         (\<not> admin_locked srv \<and> (\<exists>q. panelsToDelete st1 = panelsToDelete st @ [q] \<and> q_index q = i))"
  using assms
  by (auto simp: sweep_entry_def admin_locked_def Let_def perform_def
      split: if_splits option.splits prod.splits)

lemma filter_splice1:
  "j < length xs \<Longrightarrow> \<not> P (xs ! j) \<Longrightarrow> filter P (splice1 j xs) = filter P xs"
proof -
  assume j: "j < length xs" and n: "\<not> P (xs ! j)"
  have "xs = take j xs @ xs ! j # drop (Suc j) xs"
    using j by (rule id_take_nth_drop)
  then have "filter P xs = filter P (take j xs) @ filter P (xs ! j # drop (Suc j) xs)"
    by (metis filter_append)
  then show ?thesis using n by (simp add: splice1_def)
qed

lemma sweep_loop_result:
  assumes "sweep_loop now grace env i db done st = (Inr db1, st1)"
  shows "\<exists>ys qs. db1 = done @ ys \<and> length ys = length db
      \<and> (\<forall>k < length db. admin_locked (ys ! k) = admin_locked (db ! k)
            \<and> (admin_locked (db ! k) \<longrightarrow> ys ! k = db ! k))
      \<and> panelsToDelete st1 = panelsToDelete st @ qs
      \<and> sorted_wrt (<) (map q_index qs)
      \<and> (\<forall>q \<in> set qs. i \<le> q_index q \<and> q_index q < i + length db
            \<and> \<not> admin_locked (db ! (q_index q - i)))"
  using assms
proof (induction db arbitrary: i "done" st)
  case Nil
  then show ?case by simp
next
  case (Cons srv rest)
  from Cons.prems obtain srv1 st' where
    e: "sweep_entry now grace env i srv st = Inr (srv1, st')"
    and l: "sweep_loop now grace env (Suc i) rest (done @ [srv1]) st' = (Inr db1, st1)"
    by (auto split: sum.splits prod.splits)
  from Cons.IH [OF l] obtain ys qs where
    ys: "db1 = (done @ [srv1]) @ ys" "length ys = length rest"
    and kept: "\<forall>k < length rest. admin_locked (ys ! k) = admin_locked (rest ! k)
            \<and> (admin_locked (rest ! k) \<longrightarrow> ys ! k = rest ! k)"
    and q: "panelsToDelete st1 = panelsToDelete st' @ qs"
    and srt: "sorted_wrt (<) (map q_index qs)"
    and rng: "\<forall>q \<in> set qs. Suc i \<le> q_index q \<and> q_index q < Suc i + length rest
            \<and> \<not> admin_locked (rest ! (q_index q - Suc i))"
    by blast
  note r = sweep_entry_result [OF e]
  from r(3) obtain qs0 where
    q0: "panelsToDelete st' = panelsToDelete st @ qs0"
    and q0': "qs0 = [] \<or> (\<not> admin_locked srv \<and> (\<exists>q. qs0 = [q] \<and> q_index q = i))"
    by auto
  have k: "\<forall>k < length (srv # rest). admin_locked ((srv1 # ys) ! k) = admin_locked ((srv # rest) ! k)
            \<and> (admin_locked ((srv # rest) ! k) \<longrightarrow> (srv1 # ys) ! k = (srv # rest) ! k)"
    using kept r(1) r(2) by (auto simp: nth_Cons split: nat.splits)
  have s: "sorted_wrt (<) (map q_index (qs0 @ qs))"
    using srt rng q0' by (auto simp: sorted_wrt_append)
  have g: "\<forall>q \<in> set (qs0 @ qs). i \<le> q_index q \<and> q_index q < i + length (srv # rest)
            \<and> \<not> admin_locked ((srv # rest) ! (q_index q - i))"
  proof
    fix q assume "q \<in> set (qs0 @ qs)"
    then consider "q \<in> set qs0" | "q \<in> set qs" by auto
    then show "i \<le> q_index q \<and> q_index q < i + length (srv # rest)
            \<and> \<not> admin_locked ((srv # rest) ! (q_index q - i))"
    proof cases
      case 1
      then show ?thesis using q0' by auto
    next
      case 2
      with rng have a: "Suc i \<le> q_index q" "q_index q < Suc i + length rest"
        "\<not> admin_locked (rest ! (q_index q - Suc i))" by auto
      from a(1) have "q_index q - i = Suc (q_index q - Suc i)" by simp
      then show ?thesis using a by simp
    qed
  qed
  show ?case
    apply (rule exI [of _ "srv1 # ys"], rule exI [of _ "qs0 @ qs"])
    using ys k s g q q0 by simp
qed

lemma deleteExpiredPanel_True: "fst (deleteExpiredPanel env w sid u) = True"
  by (cases w) (simp add: deleteExpiredPanel_def Let_def split: prod.splits)

lemma delete_loop_admin:
  assumes "sorted_wrt (>) (map q_index qs)"
    and "\<forall>q \<in> set qs. q_index q < n \<and> \<not> admin_locked (ys ! q_index q)"
    and "take n cur = take n ys" and "n \<le> length ys"
  shows "filter admin_locked (fst (delete_loop env qs (cur, ch, ps, tr)))
     = filter admin_locked cur"
  using assms
proof (induction qs arbitrary: n cur ch ps tr)
  case Nil
  then show ?case by simp
next
  case (Cons q qs)
  obtain success ps1 tr1 where
    d: "deleteExpiredPanel env (ps, tr) (q_serverId q) (q_username q) = (success, ps1, tr1)"
    by (cases "deleteExpiredPanel env (ps, tr) (q_serverId q) (q_username q)")
  let ?j = "q_index q"
  from Cons.prems have j: "?j < n" and na: "\<not> admin_locked (ys ! ?j)" by auto
  have len: "n \<le> length cur"
    using Cons.prems(3,4) by (metis length_take min.absorb2 min.cobounded1)
  have same: "cur ! ?j = ys ! ?j"
    using Cons.prems(3) j by (metis nth_take)
  have srt: "sorted_wrt (>) (map q_index qs)" using Cons.prems(1) by simp
  have rng: "\<forall>q' \<in> set qs. q_index q' < ?j \<and> \<not> admin_locked (ys ! q_index q')"
    using Cons.prems(1,2) by auto
  have jl: "?j \<le> length ys" using j Cons.prems(4) by simp
  have t0: "take ?j cur = take ?j ys"
    using Cons.prems(3) j by (metis less_imp_le_nat take_take min.absorb1)
  show ?case
  proof (cases success)
    case True
    have t: "take ?j (splice1 ?j cur) = take ?j ys"
      using t0 j len jl by (simp add: splice1_def)
    have "filter admin_locked (fst (delete_loop env qs (splice1 ?j cur, True, ps1, tr1)))
        = filter admin_locked (splice1 ?j cur)"
      by (rule Cons.IH [OF srt rng t jl])
    also have "\<dots> = filter admin_locked cur"
      using filter_splice1 [of ?j cur admin_locked] j len na same by simp
    finally show ?thesis using d True by simp
  next
    case False
    have "filter admin_locked (fst (delete_loop env qs (cur, ch, ps1, tr1)))
        = filter admin_locked cur"
      by (rule Cons.IH [OF srt rng t0 jl])
    then show ?thesis using d False by simp
  qed
qed

lemma filter_pointwise:
  "length ys = length xs \<Longrightarrow>
   \<forall>k < length xs. P (ys ! k) = P (xs ! k) \<and> (P (xs ! k) \<longrightarrow> ys ! k = xs ! k) \<Longrightarrow>
   filter P ys = filter P xs"
proof (induction xs arbitrary: ys)
  case Nil
  then show ?case by simp
next
  case (Cons x xs)
  then obtain y ys' where y: "ys = y # ys'" by (cases ys) auto
  with Cons.prems have l: "length ys' = length xs" by simp
  have h: "P y = P x \<and> (P x \<longrightarrow> y = x)"
    using Cons.prems(2) y by (auto dest: spec [of _ 0])
  have t: "\<forall>k < length xs. P (ys' ! k) = P (xs ! k) \<and> (P (xs ! k) \<longrightarrow> ys' ! k = xs ! k)"
  proof (intro allI impI)
    fix k assume "k < length xs"
    then have "Suc k < length (x # xs)" by simp
    with Cons.prems(2) y show "P (ys' ! k) = P (xs ! k) \<and> (P (xs ! k) \<longrightarrow> ys' ! k = xs ! k)"
      by (metis nth_Cons_Suc)
  qed
  from Cons.IH [OF l t] h y show ?case by auto
qed



lemma sweep_entry_alike:
  assumes "alike st st'"
  shows "(case (sweep_entry now grace env i srv st, sweep_entry now grace env i' srv st') of
            (Inl e, Inl e') \<Rightarrow> True
          | (Inr (s1, t1), Inr (s1', t1')) \<Rightarrow> s1 = s1' \<and> alike t1 t1'
          | _ \<Rightarrow> False)"
  using assms
  by (auto simp: sweep_entry_def alike_def perform_def Let_def split: option.splits)

lemma sweep_loop_alike:
  assumes "alike st st'"
  shows "isl (fst (sweep_loop now grace env i db done st))
           = isl (fst (sweep_loop now grace env i' (filter (\<lambda>s. \<not> admin_locked s) db) done' st'))
       \<and> alike (snd (sweep_loop now grace env i db done st))
           (snd (sweep_loop now grace env i' (filter (\<lambda>s. \<not> admin_locked s) db) done' st'))"
  using assms
proof (induction db arbitrary: i i' "done" done' st st')
  case Nil
  then show ?case by simp
next
  case (Cons srv rest)
  show ?case
  proof (cases "admin_locked srv")
    case True
    then show ?thesis
      using Cons.IH [OF Cons.prems] by (simp add: sweep_entry_admin)
  next
    case False
    note e = sweep_entry_alike [OF Cons.prems, of now grace env i srv i']
    show ?thesis
    proof (cases "sweep_entry now grace env i srv st")
      case (Inl a)
      with e obtain a' where "sweep_entry now grace env i' srv st' = Inl a'"
        by (cases "sweep_entry now grace env i' srv st'") auto
      with Inl False Cons.prems show ?thesis by simp
    next
      case (Inr b)
      obtain s1 t1 where b: "b = (s1, t1)" by (cases b)
      with Inr e obtain t1' where
        r: "sweep_entry now grace env i' srv st' = Inr (s1, t1')" and a: "alike t1 t1'"
        by (cases "sweep_entry now grace env i' srv st'") auto
      from Cons.IH [OF a] Inr b r False show ?thesis by simp
    qed
  qed
qed

lemma delete_loop_alike:
  assumes "map (\<lambda>q. (q_serverId q, q_username q)) qs
         = map (\<lambda>q. (q_serverId q, q_username q)) qs'"
  shows "snd (snd (delete_loop env qs (db, ch, ps, tr)))
           = snd (snd (delete_loop env qs' (db', ch', ps, tr)))"
  using assms
proof (induction qs arbitrary: qs' db db' ch ch' ps tr)
  case Nil
  then show ?case by simp
next
  case (Cons q qs)
  then obtain q' qs'' where q': "qs' = q' # qs''" by (cases qs') auto
  with Cons.prems have k: "q_serverId q = q_serverId q'" "q_username q = q_username q'"
    and m: "map (\<lambda>q. (q_serverId q, q_username q)) qs
         = map (\<lambda>q. (q_serverId q, q_username q)) qs''"
    by auto
  obtain ok ps1 tr1 where
    d: "deleteExpiredPanel env (ps, tr) (q_serverId q') (q_username q') = (ok, ps1, tr1)"
    by (cases "deleteExpiredPanel env (ps, tr) (q_serverId q') (q_username q')")
  show ?case
    using Cons.IH [OF m] d by (simp add: q' k)
qed

lemma sweep_passes_blind:
  "snd (sweep_passes now grace env db w)
     = snd (sweep_passes now grace env (filter (\<lambda>s. \<not> admin_locked s) db) w)"
proof -
  obtain ps tr where w: "w = (ps, tr)" by (cases w)
  define st0 where "st0 = \<lparr> changed = False, panelsToDelete = [], sweep_calls = tr \<rparr>"
  obtain r st where l: "sweep_loop now grace env 0 db [] st0 = (r, st)"
    by (cases "sweep_loop now grace env 0 db [] st0")
  obtain r' st' where
    l': "sweep_loop now grace env 0 (filter (\<lambda>s. \<not> admin_locked s) db) [] st0 = (r', st')"
    by (cases "sweep_loop now grace env 0 (filter (\<lambda>s. \<not> admin_locked s) db) [] st0")
  have "alike st0 st0" by (simp add: alike_def)
  from sweep_loop_alike [OF this, of now grace env 0 db "[]" 0 "[]"] l l'
  have i: "isl r = isl r'" and a: "alike st st'" by simp_all
  show ?thesis
  proof (cases r)
    case (Inl e)
    with i obtain e' where "r' = Inl e'" by (cases r') auto
    with Inl l l' a show ?thesis
      by (simp add: sweep_passes_def w st0_def [symmetric] alike_def)
  next
    case (Inr db1)
    with i obtain db1' where r': "r' = Inr db1'" by (cases r') auto
    from a have m: "map (\<lambda>q. (q_serverId q, q_username q)) (rev (panelsToDelete st))
         = map (\<lambda>q. (q_serverId q, q_username q)) (rev (panelsToDelete st'))"
      by (simp add: alike_def rev_map [symmetric])
    from a have c: "sweep_calls st = sweep_calls st'" by (simp add: alike_def)
    from delete_loop_alike [OF m, of env db1 "changed st" ps "sweep_calls st" db1' "changed st'"]
    show ?thesis
      using Inr r' l l' c
      by (auto simp: sweep_passes_def w st0_def [symmetric] split: prod.splits)
  qed
qed

text \<open>
  Claim C2. For a subscription under the manual lock, whatever the current time, the
  expiry and the remote replies: the loop body issues no call, leaves the subscription
  as it is and queues nothing. Over a whole tick that ends without an error, the
  admin-locked subscriptions of the database after both loops are those of the loaded
  database, in the same order and unchanged: none is removed by a \<open>splice\<close> and none has
  its \<open>suspend_by\<close> changed. The calls that a tick issues and what it does to the order
  cache are those of the tick on the database without its admin-locked subscriptions:
  no suspend or delete call is issued on their account.
\<close>

theorem sweeper_spares_admin_locked:
  "(admin_locked srv \<longrightarrow> sweep_entry now grace env i srv st = Inr (srv, st))
   \<and> (sweep_passes now grace env db (ps, tr) = (Inr (db2, ch), ps2, tr2)
        \<longrightarrow> filter admin_locked db2 = filter admin_locked db)
   \<and> snd (sweep_passes now grace env db w)
       = snd (sweep_passes now grace env (filter (\<lambda>s. \<not> admin_locked s) db) w)"
proof (intro conjI impI)
  show "snd (sweep_passes now grace env db w)
       = snd (sweep_passes now grace env (filter (\<lambda>s. \<not> admin_locked s) db) w)"
    by (rule sweep_passes_blind)
next
  assume "admin_locked srv"
  then show "sweep_entry now grace env i srv st = Inr (srv, st)" by (rule sweep_entry_admin)
next
  assume a: "sweep_passes now grace env db (ps, tr) = (Inr (db2, ch), ps2, tr2)"
  define st0 where "st0 = \<lparr> changed = False, panelsToDelete = [], sweep_calls = tr \<rparr>"
  from a obtain db1 st1 where
    l: "sweep_loop now grace env 0 db [] st0 = (Inr db1, st1)"
    and d: "delete_loop env (rev (panelsToDelete st1)) (db1, changed st1, ps, sweep_calls st1)
        = (db2, ch, ps2, tr2)"
    by (auto simp: sweep_passes_def st0_def split: prod.splits sum.splits)
  from sweep_loop_result [OF l] obtain qs where
    len: "length db1 = length db"
    and kept: "\<forall>k < length db. admin_locked (db1 ! k) = admin_locked (db ! k)
            \<and> (admin_locked (db ! k) \<longrightarrow> db1 ! k = db ! k)"
    and q: "panelsToDelete st1 = qs"
    and srt: "sorted_wrt (<) (map q_index qs)"
    and rng: "\<forall>q \<in> set qs. q_index q < length db \<and> \<not> admin_locked (db ! q_index q)"
    by (auto simp: st0_def)
  have srt': "sorted_wrt (>) (map q_index (rev qs))"
    using srt by (simp add: sorted_wrt_rev rev_map [symmetric])
  have rng': "\<forall>q \<in> set (rev qs). q_index q < length db1 \<and> \<not> admin_locked (db1 ! q_index q)"
    using rng kept len by auto
  have "filter admin_locked (fst (delete_loop env (rev qs) (db1, changed st1, ps, sweep_calls st1)))
      = filter admin_locked db1"
    by (rule delete_loop_admin [OF srt' rng']) simp_all
  with d q have "filter admin_locked db2 = filter admin_locked db1" by simp
  also have "\<dots> = filter admin_locked db"
    by (rule filter_pointwise [OF len kept])
  finally show "filter admin_locked db2 = filter admin_locked db" .
qed


theorem sweeper_spares_admin_locked_witness:
  "admin_locked demo_locked
   \<and> sweep_entry 691201000 7 (always Done) 0 demo_locked fresh_sweep = Inr (demo_locked, fresh_sweep)
   \<and> sweep_passes 691201000 7 (always Done) [demo_locked, demo_sub] ([], [])
       = (Inr ([demo_locked], True), [], [Suspend (Some 7), GetServer (Some 7)])
   \<and> filter admin_locked [demo_locked] = filter admin_locked [demo_locked, demo_sub]"
proof -
  have a: "admin_locked demo_locked"
    by (simp add: admin_locked_def demo_locked_def)
  have e: "sweep_entry 691201000 7 (always Done) (Suc 0) demo_sub
        \<lparr> changed = False, panelsToDelete = [], sweep_calls = [] \<rparr>
      = Inr (demo_sub\<lparr> suspend_by := Some ''auto'' \<rparr>,
          \<lparr> changed = True,
            panelsToDelete = [\<lparr> q_index = Suc 0, q_serverId = Some 7, q_username = ''alice'' \<rparr>],
            sweep_calls = [Suspend (Some 7)] \<rparr>)"
    by (simp add: sweep_entry_def demo_sub_def demo_panel_def perform_def always_def
        resolved_def DAY_def Let_def getTime_def)
  have p: "sweep_passes 691201000 7 (always Done) [demo_locked, demo_sub] ([], [])
       = (Inr ([demo_locked], True), [], [Suspend (Some 7), GetServer (Some 7)])"
    using a by (simp add: sweep_passes_def sweep_entry_admin e deleteExpiredPanel_def
        perform_def always_def truthy_def splice1_def Let_def)
  show ?thesis
    using a p sweeper_spares_admin_locked
      [of demo_locked 691201000 7 "always Done" 0 fresh_sweep "[demo_locked, demo_sub]"
          "[]" "[]" "[demo_locked]" True "[]" "[Suspend (Some 7), GetServer (Some 7)]"]
    by simp
qed

text \<open>
  The administrator's route attempts the deletion of the remote server whatever the
  owner lookup returned.
\<close>

lemma owner_cleanup_keeps:
  "owner_cleanup env tr s n = (m, tr') \<Longrightarrow> x \<in> set tr \<Longrightarrow> x \<in> set tr'"
  by (auto simp: owner_cleanup_def perform_def Let_def split: reply.splits prod.splits if_splits)

lemma loadServerDatabase_keeps:
  "loadServerDatabase env tr = (d, tr') \<Longrightarrow> x \<in> set tr \<Longrightarrow> x \<in> set tr'"
  using loadServerDatabase_trace [of env tr] by auto

lemma loadSettings_keeps:
  "loadSettings config now env (c, tr) = (s, c', tr') \<Longrightarrow> x \<in> set tr \<Longrightarrow> x \<in> set tr'"
  using fetchData_trace [of env tr]
  by (auto simp: loadSettings_def split: prod.splits option.splits if_splits)

lemma saveServerDatabase_keeps:
  "saveServerDatabase config now env (c, tr) d = (c', tr') \<Longrightarrow> x \<in> set tr \<Longrightarrow> x \<in> set tr'"
  by (auto simp: saveServerDatabase_def updateData_def perform_def split: prod.splits
      dest: loadSettings_keeps)

lemma admin_delete_attempts_remote_delete:
  "DeleteServer (Some sid) \<in> set (calls (snd (admin_delete config now env st sid)))"
proof -
  let ?d = "DeleteServer (Some sid)"
  obtain infoResponse tr1 where
    i: "perform env (calls st) (GetServer (Some sid)) = (infoResponse, tr1)"
    by (cases "perform env (calls st) (GetServer (Some sid))")
  obtain ownerId tr2 where
    o: "(case infoResponse of
           ServerOwner n \<Rightarrow> (Some n, tr1)
         | _ \<Rightarrow>
             (case loadServerDatabase env tr1 of (currentDb, tr') \<Rightarrow>
                (case findIndex (by_server_id (Some sid)) currentDb of
                   Some (i, localData) \<Rightarrow>
                     (case panel_data localData of
                        Some pd \<Rightarrow> (if truthy (owner_id pd) then owner_id pd else None, tr')
                      | None \<Rightarrow> (None, tr'))
                 | None \<Rightarrow> (None, tr')))) = (ownerId, tr2)"
    by (rule prod.exhaust)
  have tail: "?d \<in> set (calls (snd
      (case (case ownerId of
               Some n \<Rightarrow> if truthy ownerId \<and> b
                          then owner_cleanup env (tr2 @ [?d]) (Some sid) n
                          else (OwnerKept, tr2 @ [?d])
             | None \<Rightarrow> (OwnerKept, tr2 @ [?d])) of
         (ownerMessage, tr4) \<Rightarrow>
      (case loadServerDatabase env tr4 of (currentDb, tr5) \<Rightarrow>
      (case (case findIndex (by_server_id (Some sid)) currentDb of
               Some (serverIndex, p) \<Rightarrow>
                 (True, saveServerDatabase config now env (settingsCache st, tr5)
                          (splice1 serverIndex currentDb))
             | None \<Rightarrow> (False, settingsCache st, tr5)) of
         (localDeleted, c6, tr6) \<Rightarrow>
           (\<lparr> delete_success = True, api_message_sent = msg,
              owner_status = ownerMessage, local_db_deleted = localDeleted \<rparr>,
            \<lparr> settingsCache = c6,
              panelsStorage = forget_order (Some sid) (panelsStorage st),
              calls = tr6 @ [Respond] \<rparr>))))))" for b msg
  proof -
    obtain ownerMessage tr4 where
      c: "(case ownerId of
             Some n \<Rightarrow> if truthy ownerId \<and> b
                        then owner_cleanup env (tr2 @ [?d]) (Some sid) n
                        else (OwnerKept, tr2 @ [?d])
           | None \<Rightarrow> (OwnerKept, tr2 @ [?d])) = (ownerMessage, tr4)"
      by (rule prod.exhaust)
    have m4: "?d \<in> set tr4"
      using c by (auto split: option.splits if_splits dest: owner_cleanup_keeps [where x = ?d])
    obtain currentDb tr5 where l: "loadServerDatabase env tr4 = (currentDb, tr5)"
      by (cases "loadServerDatabase env tr4")
    have m5: "?d \<in> set tr5"
      using loadServerDatabase_keeps [OF l m4] .
    obtain localDeleted c6 tr6 where
      s: "(case findIndex (by_server_id (Some sid)) currentDb of
             Some (serverIndex, p) \<Rightarrow>
               (True, saveServerDatabase config now env (settingsCache st, tr5)
                        (splice1 serverIndex currentDb))
           | None \<Rightarrow> (False, settingsCache st, tr5)) = (localDeleted, c6, tr6)"
      by (metis prod.exhaust)
    have m6: "?d \<in> set tr6"
      using s m5 by (auto split: option.splits dest: saveServerDatabase_keeps [where x = ?d])
    show ?thesis
      by (simp only: c l s prod.case) (simp add: m6)
  qed
  let ?r = "env (tr2 @ [?d])"
  consider "?r = Done" | "?r = NotFound" | "?r = Failed"
    | "?r \<noteq> Done \<and> ?r \<noteq> NotFound \<and> ?r \<noteq> Failed" by blast
  then show ?thesis
    unfolding admin_delete_def i o prod.case
    by cases (simp_all add: perform_def tail)
qed
section \<open>Renewal: the new expiry, and the write before the unsuspend call\<close>

lemma findIndex_first: "first_at P xs k \<Longrightarrow> findIndex P xs = Some (k, xs ! k)"
proof (induction xs arbitrary: k)
  case Nil
  then show ?case by simp
next
  case (Cons x xs)
  then show ?case by (cases k) auto
qed

lemma findIndex_find: "map_option snd (findIndex P xs) = find P xs"
  by (induction xs) (auto split: option.splits)

lemma findIndex_list_ex: "(findIndex P xs = None) = (\<not> list_ex P xs)"
  by (induction xs) (auto split: option.splits)

lemma loadServerDatabase_doc:
  "env (tr @ [FetchData]) = Document doc \<Longrightarrow>
   loadServerDatabase env tr = (subscriptions_of doc, tr @ [FetchData])"
  by (simp add: loadServerDatabase_def fetchData_def perform_def)

lemma loadSettings_trace:
  "\<exists>s c' m. loadSettings config now env (c, tr) = (s, c', tr @ replicate m FetchData)"
proof -
  obtain s c' tr' where l: "loadSettings config now env (c, tr) = (s, c', tr')"
    by (cases "loadSettings config now env (c, tr)")
  have "tr' = tr \<or> tr' = tr @ [FetchData]"
    using l fetchData_trace [of env tr]
    by (auto simp: loadSettings_def split: option.splits prod.splits if_splits)
  then have "tr' = tr @ replicate 0 FetchData \<or> tr' = tr @ replicate 1 FetchData" by simp
  with l show ?thesis by blast
qed

lemma saveServerDatabase_trace:
  "\<exists>c' m cur. saveServerDatabase config now env (c, tr) data
       = (c', tr @ replicate m FetchData
              @ [UpdateData (map Sub data @ [SettingsEntry (Some cur)])])"
proof -
  from loadSettings_trace [of config now env c tr] obtain s c' m where
    "loadSettings config now env (c, tr) = (s, c', tr @ replicate m FetchData)" by blast
  then show ?thesis
    by (auto simp: saveServerDatabase_def updateData_def perform_def)
qed

lemma renewPanel_direct:
  assumes doc: "env (tr @ [FetchData]) = Document doc"
    and k: "first_at (by_server_id (order_server_id orderData)) (subscriptions_of doc) k"
    and pd: "panel_data (subscriptions_of doc ! k) = Some pd"
    and cur: "getTime (expires_at pd) = Some cur"
    and prices: "PRICES config \<noteq> None"
    and ext: "add_days (if cur < now1 then now2 else cur)
                (or_default (order_days orderData) 30) = Some newExpire"
  shows "\<exists>n cs bp c'.
     renewPanel (Suc fuel) config now1 now2 env (c, tr) orderData =
       Some (Inr \<lparr> pd_username = username (subscriptions_of doc ! k), pd_password = None,
                   server_id = order_server_id orderData, server_name = None,
                   owner_id = None, owner_email = None, expires_at = Absent, specs = None,
                   new_expiry = Some newExpire,
                   product_id = Some (productId_of (subscriptions_of doc ! k) pd) \<rparr>,
             orderData\<lparr> order_basePrice := Some bp \<rparr>, c',
             tr @ replicate (Suc n) FetchData @
             [UpdateData
                (map Sub ((subscriptions_of doc)
                   [k := (subscriptions_of doc ! k)
                      \<lparr> panel_data := Some (pd\<lparr> expires_at := At newExpire \<rparr>),
                        days := or_default (days (subscriptions_of doc ! k)) 0
                                + or_default (order_days orderData) 30,
                        suspend_by := None \<rparr>])
                 @ [SettingsEntry (Some cs)]),
              Unsuspend (order_server_id orderData)])"
proof -
  let ?db = "subscriptions_of doc"
  let ?srv = "?db ! k"
  let ?srv1 = "?srv\<lparr> panel_data := Some (pd\<lparr> expires_at := At newExpire \<rparr>),
                     days := or_default (days ?srv) 0 + or_default (order_days orderData) 30,
                     suspend_by := None \<rparr>"
  have l: "loadServerDatabase env tr = (?db, tr @ [FetchData])"
    using doc by (rule loadServerDatabase_doc)
  have f: "findIndex (by_server_id (order_server_id orderData)) ?db = Some (k, ?srv)"
    by (rule findIndex_first [OF k])
  from loadSettings_trace [of config now1 env c "tr @ [FetchData]"] obtain s c2 m where
    ls: "loadSettings config now1 env (c, tr @ [FetchData])
           = (s, c2, (tr @ [FetchData]) @ replicate m FetchData)"
    by blast
  obtain pm where pm: "(case PRICES s of Some m \<Rightarrow> Some m | None \<Rightarrow> PRICES config) = Some pm"
    using prices by (cases "PRICES s") auto
  let ?od1 = "orderData\<lparr> order_basePrice := Some (basePrice_of pm (productId_of ?srv pd)) \<rparr>"
  have e: "extend_subscription now1 now2 ?od1 ?srv pd cur = Some (?srv1, newExpire)"
    using ext by (simp add: extend_subscription_def Let_def)
  from saveServerDatabase_trace
    [of config now2 env c2 "(tr @ [FetchData]) @ replicate m FetchData" "?db[k := ?srv1]"]
  obtain c3 m' cs where
    sv: "saveServerDatabase config now2 env (c2, (tr @ [FetchData]) @ replicate m FetchData)
           (?db[k := ?srv1])
         = (c3, ((tr @ [FetchData]) @ replicate m FetchData) @ replicate m' FetchData
                @ [UpdateData (map Sub (?db[k := ?srv1]) @ [SettingsEntry (Some cs)])])"
    by blast
  define T where "T = tr @ replicate (Suc (m + m')) FetchData @
             [UpdateData (map Sub (?db[k := ?srv1]) @ [SettingsEntry (Some cs)]),
              Unsuspend (order_server_id orderData)]"
  have T': "T = (((tr @ [FetchData]) @ replicate m FetchData) @ replicate m' FetchData
                @ [UpdateData (map Sub (?db[k := ?srv1]) @ [SettingsEntry (Some cs)])])
              @ [Unsuspend (order_server_id orderData)]"
    by (simp add: T_def replicate_add replicate_app_Cons_same)
  have "renewPanel (Suc fuel) config now1 now2 env (c, tr) orderData =
       Some (Inr \<lparr> pd_username = username ?srv, pd_password = None,
                   server_id = order_server_id orderData, server_name = None,
                   owner_id = None, owner_email = None, expires_at = Absent, specs = None,
                   new_expiry = Some newExpire,
                   product_id = Some (productId_of ?srv pd) \<rparr>,
             ?od1, c3, T)"
    unfolding T' using l f pd ls pm cur e sv
    by (simp add: perform_def Let_def)
  then have "renewPanel (Suc fuel) config now1 now2 env (c, tr) orderData =
       Some (Inr \<lparr> pd_username = username ?srv, pd_password = None,
                   server_id = order_server_id orderData, server_name = None,
                   owner_id = None, owner_email = None, expires_at = Absent, specs = None,
                   new_expiry = Some newExpire,
                   product_id = Some (productId_of ?srv pd) \<rparr>,
             ?od1, c3,
             tr @ replicate (Suc (m + m')) FetchData @
             [UpdateData (map Sub (?db[k := ?srv1]) @ [SettingsEntry (Some cs)]),
              Unsuspend (order_server_id orderData)])"
    by (simp only: T_def)
  then show ?thesis by blast
qed

lemma renewPanel_by_username:
  assumes doc: "env (tr @ [FetchData]) = Document doc"
    and none: "\<not> list_ex (by_server_id (order_server_id orderData)) (subscriptions_of doc)"
    and u: "order_username orderData \<noteq> []"
    and p: "find (by_username (order_username orderData)) (subscriptions_of doc) = Some p"
    and pd: "panel_data p = Some pd0"
  shows "renewPanel (Suc fuel) config now1 now2 env (c, tr) orderData
       = renewPanel fuel config now1 now2 env (c, tr @ [FetchData])
           (orderData\<lparr> order_server_id := server_id pd0 \<rparr>)"
proof -
  have l: "loadServerDatabase env tr = (subscriptions_of doc, tr @ [FetchData])"
    using doc by (rule loadServerDatabase_doc)
  have n: "findIndex (by_server_id (order_server_id orderData)) (subscriptions_of doc) = None"
    using none by (simp add: findIndex_list_ex)
  from p findIndex_find [of "by_username (order_username orderData)" "subscriptions_of doc"]
  obtain j where
    f: "findIndex (by_username (order_username orderData)) (subscriptions_of doc) = Some (j, p)"
    by (cases "findIndex (by_username (order_username orderData)) (subscriptions_of doc)") auto
  show ?thesis
    using l n u f pd by simp
qed

lemma renewPanel_target:
  assumes doc: "env (tr @ [FetchData]) = Document doc"
    and doc2: "env (tr @ [FetchData, FetchData]) = Document doc"
    and target: "renewal_target (subscriptions_of doc) orderData sid"
    and k: "first_at (by_server_id sid) (subscriptions_of doc) k"
    and pd: "panel_data (subscriptions_of doc ! k) = Some pd"
    and cur: "getTime (expires_at pd) = Some cur"
    and prices: "PRICES config \<noteq> None"
    and ext: "add_days (if cur < now1 then now2 else cur)
                (or_default (order_days orderData) 30) = Some newExpire"
  shows "\<exists>n cs bp c'.
     renewPanel (Suc (Suc fuel)) config now1 now2 env (c, tr) orderData =
       Some (Inr \<lparr> pd_username = username (subscriptions_of doc ! k), pd_password = None,
                   server_id = sid, server_name = None,
                   owner_id = None, owner_email = None, expires_at = Absent, specs = None,
                   new_expiry = Some newExpire,
                   product_id = Some (productId_of (subscriptions_of doc ! k) pd) \<rparr>,
             orderData\<lparr> order_server_id := sid, order_basePrice := Some bp \<rparr>, c',
             tr @ replicate (Suc n) FetchData @
             [UpdateData
                (map Sub ((subscriptions_of doc)
                   [k := (subscriptions_of doc ! k)
                      \<lparr> panel_data := Some (pd\<lparr> expires_at := At newExpire \<rparr>),
                        days := or_default (days (subscriptions_of doc ! k)) 0
                                + or_default (order_days orderData) 30,
                        suspend_by := None \<rparr>])
                 @ [SettingsEntry (Some cs)]),
              Unsuspend sid])"
proof (cases "list_ex (by_server_id (order_server_id orderData)) (subscriptions_of doc)")
  case True
  with target have s: "sid = order_server_id orderData" by (simp add: renewal_target_def)
  from renewPanel_direct [where env = env and tr = tr and fuel = "Suc fuel" and c = c,
      OF doc k [unfolded s] pd cur prices ext]
  show ?thesis unfolding s by simp
next
  case False
  with target obtain p pd0 where
    u: "order_username orderData \<noteq> []"
    and p: "find (by_username (order_username orderData)) (subscriptions_of doc) = Some p"
    and pd0: "panel_data p = Some pd0" and s: "sid = server_id pd0"
    by (auto simp: renewal_target_def split: option.splits)
  let ?od = "orderData\<lparr> order_server_id := server_id pd0 \<rparr>"
  have r: "renewPanel (Suc (Suc fuel)) config now1 now2 env (c, tr) orderData
       = renewPanel (Suc fuel) config now1 now2 env (c, tr @ [FetchData]) ?od"
    using doc False u p pd0 by (rule renewPanel_by_username)
  have doc2': "env ((tr @ [FetchData]) @ [FetchData]) = Document doc" using doc2 by simp
  have k': "first_at (by_server_id (order_server_id ?od)) (subscriptions_of doc) k"
    using k s by simp
  have ext': "add_days (if cur < now1 then now2 else cur)
                (or_default (order_days ?od) 30) = Some newExpire"
    using ext by simp
  from renewPanel_direct [where env = env and tr = "tr @ [FetchData]" and fuel = fuel and c = c,
      OF doc2' k' pd cur prices ext']
  obtain n cs bp c' where
    "renewPanel (Suc fuel) config now1 now2 env (c, tr @ [FetchData]) ?od =
       Some (Inr \<lparr> pd_username = username (subscriptions_of doc ! k), pd_password = None,
                   server_id = order_server_id ?od, server_name = None,
                   owner_id = None, owner_email = None, expires_at = Absent, specs = None,
                   new_expiry = Some newExpire,
                   product_id = Some (productId_of (subscriptions_of doc ! k) pd) \<rparr>,
             ?od\<lparr> order_basePrice := Some bp \<rparr>, c',
             (tr @ [FetchData]) @ replicate (Suc n) FetchData @
             [UpdateData
                (map Sub ((subscriptions_of doc)
                   [k := (subscriptions_of doc ! k)
                      \<lparr> panel_data := Some (pd\<lparr> expires_at := At newExpire \<rparr>),
                        days := or_default (days (subscriptions_of doc ! k)) 0
                                + or_default (order_days ?od) 30,
                        suspend_by := None \<rparr>])
                 @ [SettingsEntry (Some cs)]),
              Unsuspend (order_server_id ?od)])"
    by blast
  then show ?thesis
    unfolding r s
    by (intro exI [of _ "Suc n"] exI [of _ cs] exI [of _ bp] exI [of _ c']) simp
qed


lemma fetchData_cong: "same_but_writes env env' \<Longrightarrow> fetchData env tr = fetchData env' tr"
  by (simp add: fetchData_def perform_def same_but_writes_def)

lemma loadServerDatabase_cong:
  "same_but_writes env env' \<Longrightarrow> loadServerDatabase env tr = loadServerDatabase env' tr"
  by (simp add: loadServerDatabase_def fetchData_cong)

lemma loadSettings_cong:
  "same_but_writes env env' \<Longrightarrow> loadSettings config now env w = loadSettings config now env' w"
  by (cases w) (auto simp: loadSettings_def fetchData_cong [of env env']
      split: option.splits prod.splits)

lemma saveServerDatabase_cong:
  "same_but_writes env env' \<Longrightarrow>
   saveServerDatabase config now env w d = saveServerDatabase config now env' w d"
  by (simp add: saveServerDatabase_def loadSettings_cong [of env env'] updateData_def perform_def
      cong: prod.case_cong)

lemma renewPanel_cong:
  "same_but_writes env env' \<Longrightarrow>
   renewPanel fuel config now1 now2 env w orderData
     = renewPanel fuel config now1 now2 env' w orderData"
proof (induction fuel arbitrary: w orderData)
  case 0
  then show ?case by simp
next
  case (Suc fuel)
  have u: "perform env tr (Unsuspend x) = perform env' tr (Unsuspend x)" for tr x
    using Suc.prems by (simp add: perform_def same_but_writes_def)
  show ?case
    by (simp add: loadServerDatabase_cong [OF Suc.prems] loadSettings_cong [OF Suc.prems]
        saveServerDatabase_cong [OF Suc.prems] u Suc.IH [OF Suc.prems]
        cong: prod.case_cong option.case_cong)
qed

lemma updates_of_replicate: "updates_of (replicate n FetchData) = []"
  by (induction n) simp_all

lemma demo_first: "first_at (by_server_id (Some 7)) [demo_sub] 0"
  by (simp add: by_server_id_def demo_sub_def demo_panel_def)

lemma demo_target: "renewal_target [demo_sub] demo_order (Some 7)"
  by (simp add: renewal_target_def by_server_id_def by_username_def demo_sub_def demo_panel_def
      demo_order_def)

text \<open>
  Claim C3. Let the store answer the reads of the renewal with a document in which the
  target of the order (the server of the order's \<open>server_id\<close>, or else of the first
  subscription with the order's username) is first tracked by the subscription at index
  \<open>k\<close>, whose \<open>panel_data\<close> has the expiry \<open>cur\<close>; let the configuration carry a price
  table, the clock read \<open>now\<close> not before the epoch, the order ask for \<open>d > 0\<close> days, and
  \<open>max(cur, now) + d\<close> days be a time value of \<open>Date\<close>. Then \<open>renewPanel\<close> returns a result
  whose \<open>new_expiry\<close> is \<open>max(cur, now) + d\<close> days, and the one document it writes is the
  loaded one with that subscription carrying this expiry, \<open>d\<close> more days and no
  \<open>suspend_by\<close>. The new expiry is not before \<open>max(cur, now)\<close>, and a subscription that
  expired 10 days ago, renewed by 15 days, expires 15 days from now.
\<close>

theorem renewal_extends_from_max:
  assumes doc: "env (tr @ [FetchData]) = Document doc"
    and doc2: "env (tr @ [FetchData, FetchData]) = Document doc"
    and target: "renewal_target (subscriptions_of doc) orderData sid"
    and k: "first_at (by_server_id sid) (subscriptions_of doc) k"
    and pd: "panel_data (subscriptions_of doc ! k) = Some pd"
    and cur: "getTime (expires_at pd) = Some cur"
    and prices: "PRICES config \<noteq> None"
    and d: "0 < order_days orderData" and now: "0 \<le> now"
    and fits: "max cur now + order_days orderData * DAY \<le> MAX_TIME"
  shows "\<exists>res o1 c' tr' cs.
           renewPanel (Suc (Suc fuel)) config now now env (c, tr) orderData
             = Some (Inr res, o1, c', tr')
         \<and> new_expiry res = Some (max cur now + order_days orderData * DAY)
         \<and> server_id res = sid
         \<and> updates_of tr' = updates_of tr @
             [map Sub ((subscriptions_of doc)
                [k := (subscriptions_of doc ! k)
                   \<lparr> panel_data := Some (pd\<lparr> expires_at :=
                                      At (max cur now + order_days orderData * DAY) \<rparr>),
                     days := or_default (days (subscriptions_of doc ! k)) 0
                             + order_days orderData,
                     suspend_by := None \<rparr>])
              @ [SettingsEntry (Some cs)]]
         \<and> max cur now \<le> max cur now + order_days orderData * DAY
         \<and> (cur = now - 10 * DAY \<and> order_days orderData = 15 \<longrightarrow>
              new_expiry res = Some (now + 15 * DAY))"
proof -
  let ?new = "max cur now + order_days orderData * DAY"
  have m: "(if cur < now then now else cur) = max cur now" by (simp add: max_def)
  have od: "or_default (order_days orderData) 30 = order_days orderData"
    using d by (simp add: or_default_def)
  have "add_days (max cur now) (order_days orderData) = Some ?new"
    by (rule add_days_exact) (use d now fits in simp_all)
  then have ext: "add_days (if cur < now then now else cur)
      (or_default (order_days orderData) 30) = Some ?new"
    by (simp only: m od)
  from renewPanel_target [where env = env and tr = tr and fuel = fuel and c = c,
      OF doc doc2 target k pd cur prices ext]
  obtain n cs bp c' where
    r: "renewPanel (Suc (Suc fuel)) config now now env (c, tr) orderData =
       Some (Inr \<lparr> pd_username = username (subscriptions_of doc ! k), pd_password = None,
                   server_id = sid, server_name = None,
                   owner_id = None, owner_email = None, expires_at = Absent, specs = None,
                   new_expiry = Some ?new,
                   product_id = Some (productId_of (subscriptions_of doc ! k) pd) \<rparr>,
             orderData\<lparr> order_server_id := sid, order_basePrice := Some bp \<rparr>, c',
             tr @ replicate (Suc n) FetchData @
             [UpdateData
                (map Sub ((subscriptions_of doc)
                   [k := (subscriptions_of doc ! k)
                      \<lparr> panel_data := Some (pd\<lparr> expires_at := At ?new \<rparr>),
                        days := or_default (days (subscriptions_of doc ! k)) 0
                                + or_default (order_days orderData) 30,
                        suspend_by := None \<rparr>])
                 @ [SettingsEntry (Some cs)]),
              Unsuspend sid])"
    by blast
  have pos: "0 \<le> order_days orderData * DAY" using d by (simp add: DAY_def)
  have ten: "cur = now - 10 * DAY \<Longrightarrow> max cur now = now" by (simp add: DAY_def)
  show ?thesis
    unfolding r
    apply (intro exI conjI)
         apply (rule refl)
        apply simp
       apply simp
      apply (simp add: updates_of_append updates_of_replicate od del: replicate_Suc)
     apply (use pos in simp)
    apply (use ten in auto)
    done
qed

theorem renewal_extends_from_max_witness:
  "writable_store [Sub demo_sub] ([] @ [FetchData]) = Document [Sub demo_sub]
   \<and> writable_store [Sub demo_sub] ([] @ [FetchData, FetchData]) = Document [Sub demo_sub]
   \<and> renewal_target (subscriptions_of [Sub demo_sub]) demo_order (Some 7)
   \<and> first_at (by_server_id (Some 7)) (subscriptions_of [Sub demo_sub]) 0
   \<and> panel_data (subscriptions_of [Sub demo_sub] ! 0) = Some demo_panel
   \<and> getTime (expires_at demo_panel) = Some 1000
   \<and> PRICES demo_config \<noteq> None
   \<and> 0 < order_days demo_order \<and> (0::int) \<le> 864001000
   \<and> max 1000 864001000 + order_days demo_order * DAY \<le> MAX_TIME
   \<and> (1000::int) = 864001000 - 10 * DAY \<and> order_days demo_order = 15
   \<and> (2160001000::int) = 864001000 + 15 * DAY
   \<and> renewPanel (Suc (Suc 0)) demo_config 864001000 864001000
        (writable_store [Sub demo_sub]) (None, []) demo_order
      = Some (Inr \<lparr> pd_username = ''alice'', pd_password = None, server_id = Some 7,
                    server_name = None, owner_id = None, owner_email = None,
                    expires_at = Absent, specs = None, new_expiry = Some 2160001000,
                    product_id = Some ''panel-1gb'' \<rparr>,
              demo_order\<lparr> order_server_id := Some 7, order_basePrice := Some 3000 \<rparr>, None,
              [FetchData, FetchData, FetchData, FetchData,
               UpdateData
                 [Sub (demo_sub\<lparr> panel_data := Some (demo_panel\<lparr> expires_at := At 2160001000 \<rparr>),
                        days := 45, suspend_by := None \<rparr>),
                  SettingsEntry (Some (defaults demo_config))],
               Unsuspend (Some 7)])"
proof -
  have h1: "writable_store [Sub demo_sub] ([] @ [FetchData]) = Document [Sub demo_sub]"
    by (simp add: writable_store_def)
  have h2: "writable_store [Sub demo_sub] ([] @ [FetchData, FetchData]) = Document [Sub demo_sub]"
    by (simp add: writable_store_def)
  have h3: "renewal_target (subscriptions_of [Sub demo_sub]) demo_order (Some 7)"
    using demo_target by simp
  have h4: "first_at (by_server_id (Some 7)) (subscriptions_of [Sub demo_sub]) 0"
    using demo_first by simp
  have h5: "panel_data (subscriptions_of [Sub demo_sub] ! 0) = Some demo_panel"
    by (simp add: demo_sub_def)
  have h6: "getTime (expires_at demo_panel) = Some 1000"
    by (simp add: getTime_def demo_panel_def)
  have h7: "PRICES demo_config \<noteq> None" by (simp add: demo_config_def)
  have h8: "0 < order_days demo_order" "order_days demo_order = 15"
    by (simp_all add: demo_order_def)
  have h9: "(0::int) \<le> 864001000" by simp
  have h10: "max 1000 864001000 + order_days demo_order * DAY \<le> MAX_TIME"
    by (simp add: demo_order_def DAY_def MAX_TIME_def)
  have h11: "(1000::int) = 864001000 - 10 * DAY" "(2160001000::int) = 864001000 + 15 * DAY"
    by (simp_all add: DAY_def)
  have ad: "add_days 864001000 15 = Some 2160001000" by code_simp
  have e: "renewPanel (Suc (Suc 0)) demo_config 864001000 864001000
        (writable_store [Sub demo_sub]) (None, []) demo_order
      = Some (Inr \<lparr> pd_username = ''alice'', pd_password = None, server_id = Some 7,
                    server_name = None, owner_id = None, owner_email = None,
                    expires_at = Absent, specs = None, new_expiry = Some 2160001000,
                    product_id = Some ''panel-1gb'' \<rparr>,
              demo_order\<lparr> order_server_id := Some 7, order_basePrice := Some 3000 \<rparr>, None,
              [FetchData, FetchData, FetchData, FetchData,
               UpdateData
                 [Sub (demo_sub\<lparr> panel_data := Some (demo_panel\<lparr> expires_at := At 2160001000 \<rparr>),
                        days := 45, suspend_by := None \<rparr>),
                  SettingsEntry (Some (defaults demo_config))],
               Unsuspend (Some 7)])"
    by (simp add: loadServerDatabase_def fetchData_def perform_def writable_store_def
        by_server_id_def by_username_def demo_order_def demo_sub_def demo_panel_def
        demo_config_def defaults_def loadSettings_def saveServerDatabase_def updateData_def
        extend_subscription_def or_default_def Let_def getTime_def productId_of_def
        basePrice_of_def price_or_def ad)
  from renewal_extends_from_max
    [where env = "writable_store [Sub demo_sub]" and tr = "[]" and doc = "[Sub demo_sub]"
       and orderData = demo_order and sid = "Some 7" and k = 0 and pd = demo_panel
       and cur = 1000 and config = demo_config and now = 864001000 and fuel = 0 and c = None,
     OF h1 h2 h3 h4 h5 h6 h7 h8(1) h9 h10]
    h1 h2 h3 h4 h5 h6 h7 h8 h9 h10 h11 e
  show ?thesis by simp
qed

text \<open>
  Claim C7, amended. Under the same conditions on the store, the order and the
  configuration, and with a new expiry that is a time value, \<open>renewPanel\<close> returns a result
  after reads of the store, one write and then the unsuspend call; and it does the same,
  with the same result and the same calls, against every remote that differs only in
  its replies to the write: the unsuspend call is issued after the write has been
  attempted, whether or not the write succeeded.
\<close>

theorem renewal_unsuspends_after_write_attempt:
  assumes doc: "env (tr @ [FetchData]) = Document doc"
    and doc2: "env (tr @ [FetchData, FetchData]) = Document doc"
    and target: "renewal_target (subscriptions_of doc) orderData sid"
    and k: "first_at (by_server_id sid) (subscriptions_of doc) k"
    and pd: "panel_data (subscriptions_of doc ! k) = Some pd"
    and cur: "getTime (expires_at pd) = Some cur"
    and prices: "PRICES config \<noteq> None"
    and ext: "add_days (if cur < now1 then now2 else cur)
                (or_default (order_days orderData) 30) = Some newExpire"
  shows "\<exists>res o1 c' n written.
           renewPanel (Suc (Suc fuel)) config now1 now2 env (c, tr) orderData
             = Some (Inr res, o1, c',
                     tr @ replicate n FetchData @ [UpdateData written, Unsuspend sid])
         \<and> new_expiry res = Some newExpire
         \<and> (\<forall>env'. same_but_writes env env' \<longrightarrow>
               renewPanel (Suc (Suc fuel)) config now1 now2 env' (c, tr) orderData
                 = Some (Inr res, o1, c',
                         tr @ replicate n FetchData @ [UpdateData written, Unsuspend sid]))"
proof -
  from renewPanel_target [where env = env and tr = tr and fuel = fuel and c = c,
      OF doc doc2 target k pd cur prices ext]
  obtain n cs bp c' where
    r: "renewPanel (Suc (Suc fuel)) config now1 now2 env (c, tr) orderData =
       Some (Inr \<lparr> pd_username = username (subscriptions_of doc ! k), pd_password = None,
                   server_id = sid, server_name = None,
                   owner_id = None, owner_email = None, expires_at = Absent, specs = None,
                   new_expiry = Some newExpire,
                   product_id = Some (productId_of (subscriptions_of doc ! k) pd) \<rparr>,
             orderData\<lparr> order_server_id := sid, order_basePrice := Some bp \<rparr>, c',
             tr @ replicate (Suc n) FetchData @
             [UpdateData
                (map Sub ((subscriptions_of doc)
                   [k := (subscriptions_of doc ! k)
                      \<lparr> panel_data := Some (pd\<lparr> expires_at := At newExpire \<rparr>),
                        days := or_default (days (subscriptions_of doc ! k)) 0
                                + or_default (order_days orderData) 30,
                        suspend_by := None \<rparr>])
                 @ [SettingsEntry (Some cs)]),
              Unsuspend sid])"
    by blast
  have c: "renewPanel (Suc (Suc fuel)) config now1 now2 env' (c, tr) orderData
      = renewPanel (Suc (Suc fuel)) config now1 now2 env (c, tr) orderData"
    if "same_but_writes env env'" for env'
    using renewPanel_cong [OF that, of "Suc (Suc fuel)" config now1 now2 "(c, tr)" orderData]
    by simp
  show ?thesis
    apply (intro exI conjI allI impI)
      apply (rule r)
     apply simp
    apply (simp only: c r)
    done
qed

theorem renewal_unsuspends_after_write_attempt_witness:
  "writable_store [Sub demo_sub] ([] @ [FetchData]) = Document [Sub demo_sub]
   \<and> writable_store [Sub demo_sub] ([] @ [FetchData, FetchData]) = Document [Sub demo_sub]
   \<and> renewal_target (subscriptions_of [Sub demo_sub]) demo_order (Some 7)
   \<and> first_at (by_server_id (Some 7)) (subscriptions_of [Sub demo_sub]) 0
   \<and> panel_data (subscriptions_of [Sub demo_sub] ! 0) = Some demo_panel
   \<and> getTime (expires_at demo_panel) = Some 1000
   \<and> PRICES demo_config \<noteq> None
   \<and> add_days (if (1000::int) < 5000 then 5000 else 1000)
        (or_default (order_days demo_order) 30) = Some 1296005000
   \<and> same_but_writes (writable_store [Sub demo_sub]) (read_only_store [Sub demo_sub])
   \<and> (\<exists>res o1 c' n written.
         renewPanel (Suc (Suc 0)) demo_config 5000 5000 (writable_store [Sub demo_sub])
             (None, []) demo_order
           = Some (Inr res, o1, c',
                   [] @ replicate n FetchData @ [UpdateData written, Unsuspend (Some 7)])
       \<and> new_expiry res = Some 1296005000
       \<and> renewPanel (Suc (Suc 0)) demo_config 5000 5000 (read_only_store [Sub demo_sub])
             (None, []) demo_order
           = Some (Inr res, o1, c',
                   [] @ replicate n FetchData @ [UpdateData written, Unsuspend (Some 7)]))"
proof -
  have h1: "writable_store [Sub demo_sub] ([] @ [FetchData]) = Document [Sub demo_sub]"
    by (simp add: writable_store_def)
  have h2: "writable_store [Sub demo_sub] ([] @ [FetchData, FetchData]) = Document [Sub demo_sub]"
    by (simp add: writable_store_def)
  have h3: "renewal_target (subscriptions_of [Sub demo_sub]) demo_order (Some 7)"
    using demo_target by simp
  have h4: "first_at (by_server_id (Some 7)) (subscriptions_of [Sub demo_sub]) 0"
    using demo_first by simp
  have h5: "panel_data (subscriptions_of [Sub demo_sub] ! 0) = Some demo_panel"
    by (simp add: demo_sub_def)
  have h6: "getTime (expires_at demo_panel) = Some 1000"
    by (simp add: getTime_def demo_panel_def)
  have h7: "PRICES demo_config \<noteq> None" by (simp add: demo_config_def)
  have ad: "add_days 5000 15 = Some 1296005000" by code_simp
  have h8: "add_days (if (1000::int) < 5000 then 5000 else 1000)
        (or_default (order_days demo_order) 30) = Some 1296005000"
    using ad by (simp add: or_default_def demo_order_def)
  have h9: "same_but_writes (writable_store [Sub demo_sub]) (read_only_store [Sub demo_sub])"
    by (auto simp: same_but_writes_def read_only_store_def writable_store_def split: call.splits)
  from renewal_unsuspends_after_write_attempt
    [where env = "writable_store [Sub demo_sub]" and tr = "[]" and doc = "[Sub demo_sub]"
       and orderData = demo_order and sid = "Some 7" and k = 0 and pd = demo_panel
       and cur = 1000 and config = demo_config and ?now1.0 = 5000 and ?now2.0 = 5000
       and fuel = 0
       and c = None and newExpire = 1296005000,
     OF h1 h2 h3 h4 h5 h6 h7 h8]
  obtain res o1 c' n written where
    r: "renewPanel (Suc (Suc 0)) demo_config 5000 5000 (writable_store [Sub demo_sub])
             (None, []) demo_order
           = Some (Inr res, o1, c',
                   [] @ replicate n FetchData @ [UpdateData written, Unsuspend (Some 7)])"
      "new_expiry res = Some 1296005000"
      "\<forall>env'. same_but_writes (writable_store [Sub demo_sub]) env' \<longrightarrow>
         renewPanel (Suc (Suc 0)) demo_config 5000 5000 env' (None, []) demo_order
           = Some (Inr res, o1, c',
                   [] @ replicate n FetchData @ [UpdateData written, Unsuspend (Some 7)])"
    by blast
  from r(3) h9 have
    "renewPanel (Suc (Suc 0)) demo_config 5000 5000 (read_only_store [Sub demo_sub])
         (None, []) demo_order
       = Some (Inr res, o1, c',
               [] @ replicate n FetchData @ [UpdateData written, Unsuspend (Some 7)])"
    by blast
  with r(1,2) have "\<exists>res o1 c' n written.
         renewPanel (Suc (Suc 0)) demo_config 5000 5000 (writable_store [Sub demo_sub])
             (None, []) demo_order
           = Some (Inr res, o1, c',
                   [] @ replicate n FetchData @ [UpdateData written, Unsuspend (Some 7)])
       \<and> new_expiry res = Some 1296005000
       \<and> renewPanel (Suc (Suc 0)) demo_config 5000 5000 (read_only_store [Sub demo_sub])
             (None, []) demo_order
           = Some (Inr res, o1, c',
                   [] @ replicate n FetchData @ [UpdateData written, Unsuspend (Some 7)])"
    by blast
  with h1 h2 h3 h4 h5 h6 h7 h8 h9 show ?thesis by blast
qed

text \<open>
  The claim as stated fails: against a store that rejects the write, \<open>renewPanel\<close>
  still issues the unsuspend call and returns the extended expiry.
\<close>

theorem renewal_unsuspends_despite_failed_write_counterexample:
  "read_only_store [Sub demo_sub]
     ([FetchData, FetchData, FetchData, FetchData] @
      [UpdateData
         [Sub (demo_sub\<lparr> panel_data := Some (demo_panel\<lparr> expires_at := At 1296005000 \<rparr>),
                days := 45, suspend_by := None \<rparr>),
          SettingsEntry (Some (defaults demo_config))]]) = Failed
   \<and> renewPanel (Suc (Suc 0)) demo_config 5000 5000 (read_only_store [Sub demo_sub])
        (None, []) demo_order
     = Some (Inr \<lparr> pd_username = ''alice'', pd_password = None, server_id = Some 7,
                   server_name = None, owner_id = None, owner_email = None,
                   expires_at = Absent, specs = None, new_expiry = Some 1296005000,
                   product_id = Some ''panel-1gb'' \<rparr>,
             demo_order\<lparr> order_server_id := Some 7, order_basePrice := Some 3000 \<rparr>, None,
             [FetchData, FetchData, FetchData, FetchData,
              UpdateData
                [Sub (demo_sub\<lparr> panel_data := Some (demo_panel\<lparr> expires_at := At 1296005000 \<rparr>),
                       days := 45, suspend_by := None \<rparr>),
                 SettingsEntry (Some (defaults demo_config))],
              Unsuspend (Some 7)])"
proof -
  have ad: "add_days 5000 15 = Some 1296005000" by code_simp
  show ?thesis
    by (simp add: loadServerDatabase_def fetchData_def perform_def read_only_store_def
        by_server_id_def by_username_def demo_order_def demo_sub_def demo_panel_def
        demo_config_def defaults_def loadSettings_def saveServerDatabase_def updateData_def
        extend_subscription_def or_default_def Let_def getTime_def productId_of_def
        basePrice_of_def price_or_def ad)
qed

section \<open>The payment checks and the stored panel data\<close>

text \<open>
  \<open>app.get('/api/check-payment')\<close> is its two segments one after the other, and it enters
  the provisioning only for an order without \<open>panel_data\<close> whose transaction the gateway
  reports as completed.
\<close>

lemma check_payment_segments:
  "check_payment fuel config now env st oid =
     (case check_payment_poll env st oid of
        (Inl resp, st1) \<Rightarrow> Some (resp, st1)
      | (Inr txn, st1) \<Rightarrow>
          (case map_of (panelsStorage st1) oid of
             None \<Rightarrow> None
           | Some orderData \<Rightarrow>
               check_payment_provision fuel config now env st1 oid txn orderData))"
  by (auto simp: check_payment_def check_payment_poll_def check_payment_provision_def
      perform_def Let_def split: option.splits sum.splits prod.splits)

lemma stored_panel_data_sent:
  assumes o: "map_of (panelsStorage st) oid = Some orderData"
    and pd: "order_panel_data orderData = Some pd"
    and s: "order_status orderData = ''completed''"
  shows "\<exists>resp st1. check_payment fuel config now env st oid = Some (resp, st1)
           \<and> sent_panel_data resp = Some pd"
    and "\<exists>resp st1. manual_check fuel config now env st oid = Some (resp, st1)
           \<and> sent_panel_data resp
              = (if gateway_completed env st orderData oid
                    \<or> \<not> gateway_reached env st orderData oid
                 then Some pd else None)"
  using o pd s
  by (auto simp: check_payment_def manual_check_def perform_def Let_def sent_panel_data_def
      gateway_completed_def gateway_reached_def resolved_def split: reply.splits)

lemma check_payment_poll_guard:
  "check_payment_poll env st oid = (Inr txn, st1) \<Longrightarrow>
   \<exists>orderData. map_of (panelsStorage st) oid = Some orderData
     \<and> order_panel_data orderData = None \<and> txn = Some ''completed''"
  by (auto simp: check_payment_poll_def perform_def Let_def
      split: option.splits if_splits)

text \<open>
  Claim C6. The code departs from the claim. An order holds \<open>panel_data\<close> and the gateway
  reports its transaction as pending: \<open>manual-check\<close> answers with \<open>panel_data: null\<close>,
  where the claim has every payment check return the stored \<open>panel_data\<close>, and where
  \<open>check-payment\<close> on the same state does return it.
\<close>

theorem manual_check_withholds_panel_data:
  "map_of (panelsStorage demo_state) ''A1'' = Some demo_paid_order
   \<and> order_panel_data demo_paid_order = Some demo_panel
   \<and> manual_check 0 demo_config 0 (always (Transaction (Some ''pending''))) demo_state ''A1''
     = Some (Json \<lparr> success = True, transaction = Some ''pending'', resp_panel_data = None,
                    resp_panel_error = None, order_status_sent = Some ''completed'' \<rparr>,
             demo_state\<lparr> calls := [TransactionDetail 3000 ''A1''] \<rparr>)
   \<and> check_payment 0 demo_config 0 (always (Transaction (Some ''pending''))) demo_state ''A1''
     = Some (Json \<lparr> success = True, transaction = Some ''pending'',
                    resp_panel_data = Some demo_panel,
                    resp_panel_error = None, order_status_sent = Some ''completed'' \<rparr>,
             demo_state\<lparr> calls := [TransactionDetail 3000 ''A1''] \<rparr>)"
  by (simp add: manual_check_def check_payment_def demo_state_def demo_paid_order_def
      demo_order_def perform_def always_def resolved_def Let_def)

text \<open>
  Nor is the provisioning of one order safe from duplication: the test of
  \<open>panel_data\<close> and its assignment are separated by the remote calls of the workflow.
  Two overlapping checks of a paid renewal order for 15 days both pass the test, both run
  the renewal, and the subscription is extended by 30 days and unsuspended twice.
\<close>

lemma overlapping_checks_renew_twice:
  "map_option (\<lambda>(resp1, resp2, st). (map_option new_expiry (sent_panel_data resp1),
                                      map_option new_expiry (sent_panel_data resp2)))
     (overlapping_checks (Suc (Suc 0)) demo_config 5000 (live_store [Sub demo_sub])
        demo_pending_state ''A1'')
     = Some (Some (Some 1296005000), Some (Some 2592005000))
   \<and> map_option (\<lambda>(resp1, resp2, st). filter (\<lambda>c. c = Unsuspend (Some 7)) (calls st))
     (overlapping_checks (Suc (Suc 0)) demo_config 5000 (live_store [Sub demo_sub])
        demo_pending_state ''A1'')
     = Some [Unsuspend (Some 7), Unsuspend (Some 7)]
   \<and> map_option (\<lambda>(resp1, resp2, st). last (updates_of (calls st)))
     (overlapping_checks (Suc (Suc 0)) demo_config 5000 (live_store [Sub demo_sub])
        demo_pending_state ''A1'')
     = Some [Sub (demo_sub\<lparr> panel_data := Some (demo_panel\<lparr> expires_at := At 2592005000 \<rparr>),
                            days := 90, suspend_by := None \<rparr>),
             SettingsEntry (Some (defaults demo_config))]
   \<and> (2592005000::int) = 5000 + 2 * (order_days demo_order * DAY)"
proof -
  have ad: "add_days 5000 15 = Some 1296005000" "add_days 1296005000 15 = Some 2592005000"
    by code_simp+
  have r: "overlapping_checks (Suc (Suc 0)) demo_config 5000 (live_store [Sub demo_sub])
        demo_pending_state ''A1''
     = Some (Json \<lparr> success = True, transaction = Some ''completed'',
               resp_panel_data = Some \<lparr> pd_username = ''alice'', pd_password = None,
                 server_id = Some 7, server_name = None, owner_id = None, owner_email = None,
                 expires_at = Absent, specs = None, new_expiry = Some 1296005000,
                 product_id = Some ''panel-1gb'' \<rparr>,
               resp_panel_error = None, order_status_sent = Some ''completed'' \<rparr>,
             Json \<lparr> success = True, transaction = Some ''completed'',
               resp_panel_data = Some \<lparr> pd_username = ''alice'', pd_password = None,
                 server_id = Some 7, server_name = None, owner_id = None, owner_email = None,
                 expires_at = Absent, specs = None, new_expiry = Some 2592005000,
                 product_id = Some ''panel-1gb'' \<rparr>,
               resp_panel_error = None, order_status_sent = Some ''completed'' \<rparr>,
             \<lparr> settingsCache = Some (defaults demo_config, 5000),
               panelsStorage = [(''A1'', demo_order\<lparr> order_server_id := Some 7,
                  order_basePrice := Some 3000,
                  order_panel_data := Some \<lparr> pd_username = ''alice'', pd_password = None,
                    server_id = Some 7, server_name = None, owner_id = None,
                    owner_email = None, expires_at = Absent, specs = None,
                    new_expiry = Some 2592005000, product_id = Some ''panel-1gb'' \<rparr>,
                  order_status := ''completed'', order_completed_at := Some 5000 \<rparr>)],
               calls = [TransactionDetail 3000 ''A1'', TransactionDetail 3000 ''A1'',
                 FetchData, FetchData, FetchData, FetchData,
                 UpdateData [Sub (demo_sub\<lparr> panel_data :=
                                Some (demo_panel\<lparr> expires_at := At 1296005000 \<rparr>),
                              days := 45, suspend_by := None \<rparr>),
                             SettingsEntry (Some (defaults demo_config))],
                 Unsuspend (Some 7), FetchData, FetchData,
                 UpdateData [Sub (demo_sub\<lparr> panel_data :=
                                Some (demo_panel\<lparr> expires_at := At 1296005000 \<rparr>),
                              days := 60, suspend_by := None \<rparr>),
                             SettingsEntry (Some (defaults demo_config))],
                 FetchData,
                 UpdateData [Sub (demo_sub\<lparr> panel_data :=
                                Some (demo_panel\<lparr> expires_at := At 2592005000 \<rparr>),
                              days := 75, suspend_by := None \<rparr>),
                             SettingsEntry (Some (defaults demo_config))],
                 Unsuspend (Some 7), FetchData,
                 UpdateData [Sub (demo_sub\<lparr> panel_data :=
                                Some (demo_panel\<lparr> expires_at := At 2592005000 \<rparr>),
                              days := 90, suspend_by := None \<rparr>),
                             SettingsEntry (Some (defaults demo_config))]] \<rparr>)"
    by (simp add: overlapping_checks_def check_payment_poll_def check_payment_provision_def
        provision_def record_subscription_def demo_pending_state_def
        loadServerDatabase_def fetchData_def perform_def live_store_def resolved_def
        by_server_id_def by_username_def demo_order_def demo_sub_def demo_panel_def
        demo_config_def defaults_def loadSettings_def saveServerDatabase_def updateData_def
        extend_subscription_def or_default_def Let_def getTime_def productId_of_def
        basePrice_of_def price_or_def ad)
  show ?thesis
    unfolding r by (simp add: sent_panel_data_def demo_order_def DAY_def)
qed


section \<open>The price of thirty days\<close>

lemma calculate_4000_30:
  "calculate 4000 30 = \<lparr> calculatedPrice = 4001, basePrice = 4000,
      pricePerDay = 4691249611844267 / 35184372088832 \<rparr>"
  by code_simp

lemma calculate_3000_30:
  "calculate 3000 30 = \<lparr> calculatedPrice = 3000, basePrice = 3000, pricePerDay = 100 \<rparr>"
  by code_simp

text \<open>With the default price of each tier, thirty days cost the base price.\<close>

lemma calculate_defaults_30:
  "calculatedPrice (calculate 3000 30) = 3000" "calculatedPrice (calculate 5000 30) = 5000"
  "calculatedPrice (calculate 7000 30) = 7000" "calculatedPrice (calculate 9000 30) = 9000"
  "calculatedPrice (calculate 11000 30) = 11000" "calculatedPrice (calculate 14000 30) = 14000"
  "calculatedPrice (calculate 18000 30) = 18000" "calculatedPrice (calculate 30000 30) = 30000"
  by code_simp+

text \<open>
  The scenario of the claim: with the default price 3000 of \<open>panel-1gb\<close>, a request for 30
  days that declares the amount 4999 is rejected, and the expected value sent is 3000.
\<close>

lemma validatePrice_rejects_4999:
  "fst (validatePrice (demo_config\<lparr> PRICES := Some [] \<rparr>) 0 (always Failed) (None, [])
          \<lparr> body_product_id = Some ''panel-1gb'', body_days = Some 30, body_amount = Some 4999 \<rparr>)
   = Invalid400 \<lparr> expected = 3000, received = 4999, base_price = 3000, error_days = 30,
        price_per_day = 100 \<rparr>"
  by (simp add: validatePrice_def loadSettings_def fetchData_def perform_def always_def
      defaults_def demo_config_def basePrice_of_def price_or_def or_default_def
      calculate_3000_30)

text \<open>
  Claim C4. With the price of \<open>panel-1gb\<close> set to 4000, the validator computes 4001 for 30
  days: \<open>4000 / 30\<close> rounds up to the nearest binary64 number, the product with 30 exceeds
  4000, and \<open>Math.ceil\<close> gives 4001. A request that declares the base price 4000 for 30
  days is rejected, with the expected value 4001.
\<close>

theorem validatePrice_rounds_up_at_30_days:
  "fst (validatePrice (demo_config\<lparr> PRICES := Some [(''PANEL_1GB'', 4000)] \<rparr>) 0 (always Failed)
          (None, [])
          \<lparr> body_product_id = Some ''panel-1gb'', body_days = Some 30, body_amount = Some 4000 \<rparr>)
   = Invalid400 \<lparr> expected = 4001, received = 4000, base_price = 4000, error_days = 30,
        price_per_day = 4691249611844267 / 35184372088832 \<rparr>"
  by (simp add: validatePrice_def loadSettings_def fetchData_def perform_def always_def
      defaults_def demo_config_def basePrice_of_def price_or_def or_default_def
      calculate_4000_30)
section \<open>The sweeper suspends once for each expiry that it records\<close>

lemma suspends_of_append: "suspends_of (xs @ ys) = suspends_of xs @ suspends_of ys"
  by (induction xs rule: suspends_of.induct) simp_all

lemma sweep_entry_due:
  assumes "admin_locked srv \<or> panel_data srv \<noteq> None"
  shows "\<exists>st1. sweep_entry now grace env i srv st =
           Inr (if due now srv \<and> resolved (env (sweep_calls st @ [Suspend (sid_of srv)]))
                then srv\<lparr> suspend_by := Some ''auto'' \<rparr> else srv, st1)
         \<and> sweep_calls st1 = (if due now srv then sweep_calls st @ [Suspend (sid_of srv)]
                               else sweep_calls st)
         \<and> changed st1 = (changed st
               \<or> (due now srv \<and> resolved (env (sweep_calls st @ [Suspend (sid_of srv)]))))
         \<and> (\<not> overdue now grace srv \<longrightarrow> panelsToDelete st1 = panelsToDelete st)"
  using assms
  by (auto simp: sweep_entry_def due_def overdue_def sid_of_def admin_locked_def perform_def
      Let_def split: option.splits)

lemma marked_differs: "due now srv \<Longrightarrow> srv\<lparr> suspend_by := Some ''auto'' \<rparr> \<noteq> srv"
proof
  assume d: "due now srv" and e: "srv\<lparr> suspend_by := Some ''auto'' \<rparr> = srv"
  from e have "suspend_by (srv\<lparr> suspend_by := Some ''auto'' \<rparr>) = suspend_by srv" by simp
  with d show False by (simp add: due_def)
qed

lemma sweep_loop_suspend_pass:
  assumes "well_formed db"
  shows "\<exists>st1. sweep_loop now grace env i db done st
           = (Inr (done @ fst (suspend_pass now env (sweep_calls st) db)), st1)
         \<and> sweep_calls st1 = snd (suspend_pass now env (sweep_calls st) db)
         \<and> changed st1 = (changed st \<or> fst (suspend_pass now env (sweep_calls st) db) \<noteq> db)
         \<and> (list_all (\<lambda>srv. \<not> overdue now grace srv) db
              \<longrightarrow> panelsToDelete st1 = panelsToDelete st)"
  using assms
proof (induction db arbitrary: i "done" st)
  case Nil
  then show ?case by simp
next
  case (Cons srv rest)
  from Cons.prems have w: "admin_locked srv \<or> panel_data srv \<noteq> None" and wr: "well_formed rest"
    by (simp_all add: well_formed_def)
  let ?t = "sweep_calls st @ [Suspend (sid_of srv)]"
  let ?srv1 = "if due now srv \<and> resolved (env ?t)
                then srv\<lparr> suspend_by := Some ''auto'' \<rparr> else srv"
  from sweep_entry_due [OF w, of now grace env i st] obtain st' where
    e: "sweep_entry now grace env i srv st = Inr (?srv1, st')"
    and c: "sweep_calls st' = (if due now srv then ?t else sweep_calls st)"
    and ch: "changed st' = (changed st \<or> (due now srv \<and> resolved (env ?t)))"
    and q: "\<not> overdue now grace srv \<longrightarrow> panelsToDelete st' = panelsToDelete st"
    by blast
  from Cons.IH [OF wr, of "Suc i" "done @ [?srv1]" st'] obtain st1 where
    r: "sweep_loop now grace env (Suc i) rest (done @ [?srv1]) st'
           = (Inr ((done @ [?srv1]) @ fst (suspend_pass now env (sweep_calls st') rest)), st1)"
    and rc: "sweep_calls st1 = snd (suspend_pass now env (sweep_calls st') rest)"
    and rch: "changed st1 = (changed st' \<or> fst (suspend_pass now env (sweep_calls st') rest) \<noteq> rest)"
    and rq: "list_all (\<lambda>srv. \<not> overdue now grace srv) rest
              \<longrightarrow> panelsToDelete st1 = panelsToDelete st'"
    by blast
  have l: "sweep_loop now grace env i (srv # rest) done st
      = sweep_loop now grace env (Suc i) rest (done @ [?srv1]) st'"
    by (simp add: e)
  have qq: "list_all (\<lambda>srv. \<not> overdue now grace srv) (srv # rest)
              \<longrightarrow> panelsToDelete st1 = panelsToDelete st"
    using q rq by simp
  show ?case
  proof (cases "due now srv")
    case True
    with c have "sweep_calls st' = ?t" by simp
    with r rc rch ch qq True marked_differs [OF True] show ?thesis
      unfolding l by (auto split: prod.splits)
  next
    case False
    with c have "sweep_calls st' = sweep_calls st" by simp
    with r rc rch ch qq False show ?thesis
      unfolding l by (auto split: prod.splits)
  qed
qed

lemma delete_loop_changed:
  "fst (snd (delete_loop env qs (db, True, ps, tr))) = True"
proof (induction qs arbitrary: db ps tr)
  case Nil
  then show ?case by simp
next
  case (Cons q qs)
  obtain ok ps1 tr1 where
    d: "deleteExpiredPanel env (ps, tr) (q_serverId q) (q_username q) = (ok, ps1, tr1)"
    by (cases "deleteExpiredPanel env (ps, tr) (q_serverId q) (q_username q)")
  with Cons.IH show ?case by simp
qed

lemma suspend_pass_calls:
  "suspends_of (snd (suspend_pass now env tr db))
     = suspends_of tr @ map sid_of (filter (due now) db)"
proof (induction db arbitrary: tr)
  case Nil
  then show ?case by simp
next
  case (Cons srv rest)
  from Cons.IH [of tr] Cons.IH [of "tr @ [Suspend (sid_of srv)]"] show ?case
    by (auto simp: suspends_of_append split: prod.splits)
qed

lemma suspend_pass_marks:
  "list_all2 (\<lambda>srv srv1. srv1 = srv \<or> (due now srv \<and> srv1 = srv\<lparr> suspend_by := Some ''auto'' \<rparr>))
     db (fst (suspend_pass now env tr db))"
proof (induction db arbitrary: tr)
  case Nil
  then show ?case by simp
next
  case (Cons srv rest)
  from Cons.IH [of tr] Cons.IH [of "tr @ [Suspend (sid_of srv)]"] show ?case
    by (auto split: prod.splits)
qed

lemma not_due_marked: "\<not> due now (srv\<lparr> suspend_by := Some ''auto'' \<rparr>)"
  by (simp add: due_def)

lemma owner_cleanup_suspends:
  "suspends_of (snd (owner_cleanup env tr sid n)) = suspends_of tr"
  by (auto simp: owner_cleanup_def perform_def Let_def suspends_of_append
      split: reply.splits prod.splits)

lemma deleteExpiredPanel_suspends:
  "suspends_of (snd (snd (deleteExpiredPanel env (ps, tr) sid u))) = suspends_of tr"
  by (auto simp: deleteExpiredPanel_def perform_def Let_def suspends_of_append
      owner_cleanup_suspends split: reply.splits prod.splits option.splits)

lemma delete_loop_suspends:
  "suspends_of (snd (snd (snd (delete_loop env qs (db, ch, ps, tr))))) = suspends_of tr"
proof (induction qs arbitrary: db ch ps tr)
  case Nil
  then show ?case by simp
next
  case (Cons q qs)
  obtain ok ps1 tr1 where
    d: "deleteExpiredPanel env (ps, tr) (q_serverId q) (q_username q) = (ok, ps1, tr1)"
    by (cases "deleteExpiredPanel env (ps, tr) (q_serverId q) (q_username q)")
  with deleteExpiredPanel_suspends [of env ps tr "q_serverId q" "q_username q"]
  have "suspends_of tr1 = suspends_of tr" by simp
  with Cons.IH d show ?case by simp
qed

lemma saveServerDatabase_suspends:
  "suspends_of (snd (saveServerDatabase config now env (c, tr) data)) = suspends_of tr"
  using fetchData_trace [of env tr]
  by (auto simp: saveServerDatabase_def loadSettings_def updateData_def perform_def
      suspends_of_append split: prod.splits option.splits if_splits)

lemma set_splice1: "set (splice1 i xs) \<subseteq> set xs"
  using set_take_subset [of i xs] set_drop_subset [of "Suc i" xs]
  by (auto simp: splice1_def)

lemma delete_loop_subset:
  "set (fst (delete_loop env qs (db, ch, ps, tr))) \<subseteq> set db"
proof (induction qs arbitrary: db ch ps tr)
  case Nil
  then show ?case by simp
next
  case (Cons q qs)
  obtain ok ps1 tr1 where
    d: "deleteExpiredPanel env (ps, tr) (q_serverId q) (q_username q) = (ok, ps1, tr1)"
    by (cases "deleteExpiredPanel env (ps, tr) (q_serverId q) (q_username q)")
  from Cons.IH [of "splice1 (q_index q) db" True ps1 tr1] Cons.IH [of db ch ps1 tr1] d
    set_splice1 [of "q_index q" db]
  show ?case by (auto split: if_splits)
qed

lemma owner_cleanup_updates:
  "updates_of (snd (owner_cleanup env tr sid n)) = updates_of tr"
  by (auto simp: owner_cleanup_def perform_def Let_def updates_of_append
      split: reply.splits prod.splits)

lemma deleteExpiredPanel_updates:
  "updates_of (snd (snd (deleteExpiredPanel env (ps, tr) sid u))) = updates_of tr"
  by (auto simp: deleteExpiredPanel_def perform_def Let_def updates_of_append
      owner_cleanup_updates split: reply.splits prod.splits option.splits)

lemma delete_loop_updates:
  "updates_of (snd (snd (snd (delete_loop env qs (db, ch, ps, tr))))) = updates_of tr"
proof (induction qs arbitrary: db ch ps tr)
  case Nil
  then show ?case by simp
next
  case (Cons q qs)
  obtain ok ps1 tr1 where
    d: "deleteExpiredPanel env (ps, tr) (q_serverId q) (q_username q) = (ok, ps1, tr1)"
    by (cases "deleteExpiredPanel env (ps, tr) (q_serverId q) (q_username q)")
  with deleteExpiredPanel_updates [of env ps tr "q_serverId q" "q_username q"]
  have "updates_of tr1 = updates_of tr" by simp
  with Cons.IH d show ?case by simp
qed

lemma suspend_pass_updates:
  "updates_of (snd (suspend_pass now env tr db)) = updates_of tr"
proof (induction db arbitrary: tr)
  case Nil
  then show ?case by simp
next
  case (Cons srv rest)
  from Cons.IH [of tr] Cons.IH [of "tr @ [Suspend (sid_of srv)]"] show ?case
    by (auto simp: updates_of_append split: prod.splits)
qed

text \<open>
  Claim C5, amended. Let the database that a tick loads have \<open>panel_data\<close> in every
  subscription that is not under the manual lock, so that the tick is not aborted. The
  suspend calls of the tick are one for each loaded subscription that is due (not under
  the manual lock, \<open>suspend_by\<close> not \<open>auto\<close>, \<open>expires_at < now\<close>), in order, and none for any
  other. The first loop is the suspend pass: it marks a due subscription \<open>auto\<close> exactly
  when its call succeeds and leaves it unchanged otherwise. A subscription that carries
  the mark is not due at any time, so a tick that loads it with the mark issues no
  suspend call for it. The marks reach the store only with the one write at the end of
  the tick, whose reply is not read: a tick that marked a subscription issues exactly one
  \<open>updateData\<close> call, whose document holds subscriptions in their state after the suspend
  pass, all of them when none is queued for deletion; a tick that marked none and
  deleted none writes nothing.
\<close>

theorem sweeper_suspends_once_per_expiry:
  assumes wf: "well_formed (fst (loadServerDatabase env tr))"
  shows "let db = fst (loadServerDatabase env tr);
             tr1 = snd (loadServerDatabase env tr);
             grace = AUTO_DELETE_AFTER_DAYS configured;
             db1 = fst (suspend_pass now env tr1 db);
             tr' = snd (snd (sweeper_tick config configured now env (c, ps, tr)))
         in suspends_of tr' = suspends_of tr @ map sid_of (filter (due now) db)
          \<and> (\<exists>st1. sweep_loop now grace env 0 db []
                       \<lparr> changed = False, panelsToDelete = [], sweep_calls = tr1 \<rparr>
                     = (Inr db1, st1))
          \<and> \<not> due now' (srv\<lparr> suspend_by := Some ''auto'' \<rparr>)
          \<and> (\<exists>db2 written. set db2 \<subseteq> set db1
                \<and> updates_of tr' = updates_of tr @ written
                \<and> (if written = [] then db1 = db
                    else \<exists>cs. written = [map Sub db2 @ [SettingsEntry (Some cs)]]))
          \<and> (list_all (\<lambda>srv. \<not> overdue now grace srv) db \<longrightarrow>
                (\<exists>cs. updates_of tr' = updates_of tr @
                   (if db1 = db then [] else [map Sub db1 @ [SettingsEntry (Some cs)]])))"
proof -
  obtain db tr1 where l: "loadServerDatabase env tr = (db, tr1)"
    by (cases "loadServerDatabase env tr")
  have tr1: "tr1 = tr @ [FetchData]"
    using loadServerDatabase_trace [of env tr] l by simp
  from wf l have w: "well_formed db" by simp
  define st0 where "st0 = \<lparr> changed = False, panelsToDelete = [], sweep_calls = tr1 \<rparr>"
  define db1 where "db1 = fst (suspend_pass now env tr1 db)"
  let ?g = "AUTO_DELETE_AFTER_DAYS configured"
  from sweep_loop_suspend_pass [OF w, of now ?g env 0 "[]" st0] obtain st1 where
    sl: "sweep_loop now ?g env 0 db [] st0 = (Inr db1, st1)"
    and sc: "sweep_calls st1 = snd (suspend_pass now env tr1 db)"
    and sch: "changed st1 = (db1 \<noteq> db)"
    and sq: "list_all (\<lambda>srv. \<not> overdue now ?g srv) db \<longrightarrow> panelsToDelete st1 = []"
    by (auto simp: st0_def db1_def)
  obtain db2 ch ps2 tr2 where
    dl: "delete_loop env (rev (panelsToDelete st1)) (db1, changed st1, ps, sweep_calls st1)
         = (db2, ch, ps2, tr2)"
    by (rule prod_cases4)
  have s2: "suspends_of tr2 = suspends_of tr1 @ map sid_of (filter (due now) db)"
    using delete_loop_suspends [of env "rev (panelsToDelete st1)" db1 "changed st1" ps
        "sweep_calls st1"] dl sc suspend_pass_calls [of now env tr1 db]
    by simp
  have u2: "updates_of tr2 = updates_of tr"
    using delete_loop_updates [of env "rev (panelsToDelete st1)" db1 "changed st1" ps
        "sweep_calls st1"] dl sc suspend_pass_updates [of now env tr1 db]
    by (simp add: tr1 updates_of_append)
  have sub: "set db2 \<subseteq> set db1"
    using delete_loop_subset [of env "rev (panelsToDelete st1)" db1 "changed st1" ps
        "sweep_calls st1"] dl by simp
  have chg: "db1 \<noteq> db \<Longrightarrow> ch"
    using delete_loop_changed [of env "rev (panelsToDelete st1)" db1 ps "sweep_calls st1"]
      dl sch by simp
  have sp: "sweep_passes now ?g env db (ps, tr1) = (Inr (db2, ch), ps2, tr2)"
    using sl dl by (simp add: sweep_passes_def st0_def)
  obtain c3 tr3 where sv: "saveServerDatabase config now env (c, tr2) db2 = (c3, tr3)"
    by (cases "saveServerDatabase config now env (c, tr2) db2")
  have tick: "snd (snd (sweeper_tick config configured now env (c, ps, tr)))
       = (if ch then tr3 else tr2)"
    using l sp sv by (simp add: sweeper_tick_def)
  have s3: "suspends_of tr3 = suspends_of tr2"
    using saveServerDatabase_suspends [of config now env c tr2 db2] sv by simp
  from saveServerDatabase_updates [of config now env c tr2 db2] sv obtain cs where
    u3: "updates_of tr3 = updates_of tr2 @ [map Sub db2 @ [SettingsEntry (Some cs)]]"
    by auto
  have a: "suspends_of (snd (snd (sweeper_tick config configured now env (c, ps, tr))))
      = suspends_of tr @ map sid_of (filter (due now) db)"
    using tick s2 s3 by (simp add: tr1 suspends_of_append)
  have d: "\<exists>db2 written. set db2 \<subseteq> set db1
        \<and> updates_of (snd (snd (sweeper_tick config configured now env (c, ps, tr))))
            = updates_of tr @ written
        \<and> (if written = [] then db1 = db
            else \<exists>cs. written = [map Sub db2 @ [SettingsEntry (Some cs)]])"
  proof (cases ch)
    case True
    with tick u3 u2 sub show ?thesis
      by (intro exI [of _ db2] exI [of _ "[map Sub db2 @ [SettingsEntry (Some cs)]]"]) simp
  next
    case False
    with tick u2 sub chg show ?thesis
      by (intro exI [of _ db2] exI [of _ "[]"]) auto
  qed
  have e: "\<exists>cs. updates_of (snd (snd (sweeper_tick config configured now env (c, ps, tr))))
        = updates_of tr @ (if db1 = db then [] else [map Sub db1 @ [SettingsEntry (Some cs)]])"
    if n: "list_all (\<lambda>srv. \<not> overdue now ?g srv) db"
  proof -
    from n sq have "panelsToDelete st1 = []" by simp
    with dl sch have "db2 = db1" "ch = (db1 \<noteq> db)" by auto
    with tick u3 u2 show ?thesis by auto
  qed
  note sl' = sl [unfolded st0_def]
  show ?thesis
    unfolding Let_def l fst_conv snd_conv db1_def [symmetric]
    using a d e sl' not_due_marked [of now' srv] by blast
qed


theorem sweeper_suspends_once_per_expiry_witness:
  "well_formed (fst (loadServerDatabase (live_store demo_doc) []))
   \<and> fst (loadServerDatabase (live_store demo_doc) []) = [demo_locked, demo_sub, demo_suspended]
   \<and> filter (due 172801000) [demo_locked, demo_sub, demo_suspended] = [demo_sub]
   \<and> suspends_of (snd (snd (sweeper_tick demo_config None 172801000 (live_store demo_doc)
        (None, [], [])))) = [Some 7]
   \<and> sweeper_tick demo_config None 172801000 (live_store demo_doc) (None, [], [])
       = (None, [],
          [FetchData, Suspend (Some 7), FetchData,
           UpdateData [Sub demo_locked, Sub (demo_sub\<lparr> suspend_by := Some ''auto'' \<rparr>),
                       Sub demo_suspended, SettingsEntry (Some (defaults demo_config))]])
   \<and> well_formed (fst (loadServerDatabase (live_store demo_doc)
        [FetchData, Suspend (Some 7), FetchData,
         UpdateData [Sub demo_locked, Sub (demo_sub\<lparr> suspend_by := Some ''auto'' \<rparr>),
                     Sub demo_suspended, SettingsEntry (Some (defaults demo_config))]]))
   \<and> fst (loadServerDatabase (live_store demo_doc)
        [FetchData, Suspend (Some 7), FetchData,
         UpdateData [Sub demo_locked, Sub (demo_sub\<lparr> suspend_by := Some ''auto'' \<rparr>),
                     Sub demo_suspended, SettingsEntry (Some (defaults demo_config))]])
       = [demo_locked, demo_sub\<lparr> suspend_by := Some ''auto'' \<rparr>, demo_suspended]
   \<and> suspends_of (snd (snd (sweeper_tick demo_config None 172861000 (live_store demo_doc)
        (None, [],
         [FetchData, Suspend (Some 7), FetchData,
          UpdateData [Sub demo_locked, Sub (demo_sub\<lparr> suspend_by := Some ''auto'' \<rparr>),
                      Sub demo_suspended, SettingsEntry (Some (defaults demo_config))]]))))
       = [Some 7]"
proof -
  let ?doc1 = "[Sub demo_locked, Sub (demo_sub\<lparr> suspend_by := Some ''auto'' \<rparr>),
               Sub demo_suspended, SettingsEntry (Some (defaults demo_config))]"
  let ?t1 = "[FetchData, Suspend (Some 7), FetchData, UpdateData ?doc1]"
  have l0: "loadServerDatabase (live_store demo_doc) []
      = ([demo_locked, demo_sub, demo_suspended], [FetchData])"
    by (simp add: loadServerDatabase_def fetchData_def perform_def live_store_def demo_doc_def)
  have l1: "loadServerDatabase (live_store demo_doc) ?t1
      = ([demo_locked, demo_sub\<lparr> suspend_by := Some ''auto'' \<rparr>, demo_suspended],
         ?t1 @ [FetchData])"
    by (simp add: loadServerDatabase_def fetchData_def perform_def live_store_def)
  have w0: "well_formed (fst (loadServerDatabase (live_store demo_doc) []))"
    unfolding l0 fst_conv
    by (simp add: well_formed_def demo_locked_def demo_sub_def demo_suspended_def)
  have w1: "well_formed (fst (loadServerDatabase (live_store demo_doc) ?t1))"
    unfolding l1 fst_conv
    by (simp add: well_formed_def demo_locked_def demo_sub_def demo_suspended_def)
  have d0: "due 172801000 demo_sub" "\<not> due t demo_locked" "\<not> due t demo_suspended"
    "\<not> due t (demo_sub\<lparr> suspend_by := Some ''auto'' \<rparr>)" for t
    by (simp_all add: due_def admin_locked_def demo_locked_def demo_sub_def demo_suspended_def
        demo_panel_def getTime_def)
  have s: "sid_of demo_sub = Some 7"
    by (simp add: sid_of_def demo_sub_def demo_panel_def)
  have t1: "sweeper_tick demo_config None 172801000 (live_store demo_doc) (None, [], [])
       = (None, [], ?t1)"
    by (simp add: sweeper_tick_def loadServerDatabase_def sweep_passes_def sweep_entry_def
        perform_def live_store_def resolved_def AUTO_DELETE_AFTER_DAYS_def demo_locked_def
        demo_sub_def demo_suspended_def demo_panel_def getTime_def DAY_def Let_def
        saveServerDatabase_def loadSettings_def fetchData_def updateData_def demo_doc_def)
  from sweeper_suspends_once_per_expiry
      [where env = "live_store demo_doc" and tr = "[]" and now = 172801000
         and configured = None and config = demo_config and c = None and ps = "[]", OF w0]
  have a1: "suspends_of (snd (snd (sweeper_tick demo_config None 172801000
        (live_store demo_doc) (None, [], []))))
      = suspends_of [] @ map sid_of (filter (due 172801000) [demo_locked, demo_sub, demo_suspended])"
    unfolding Let_def l0 fst_conv by blast
  from sweeper_suspends_once_per_expiry
      [where env = "live_store demo_doc" and tr = ?t1 and now = 172861000
         and configured = None and config = demo_config and c = None and ps = "[]", OF w1]
  have a2: "suspends_of (snd (snd (sweeper_tick demo_config None 172861000
        (live_store demo_doc) (None, [], ?t1))))
      = suspends_of ?t1 @ map sid_of (filter (due 172861000)
          [demo_locked, demo_sub\<lparr> suspend_by := Some ''auto'' \<rparr>, demo_suspended])"
    unfolding Let_def l1 fst_conv by blast
  show ?thesis
    using w0 w1 a1 a2 t1 by (simp add: l0 l1 d0 s)
qed

text \<open>
  The claim as stated fails when the write of the tick does not reach the store: the
  next tick loads the subscription without the mark and suspends it a second time.
\<close>

theorem sweeper_suspends_twice_counterexample:
  "read_only_store [Sub demo_sub]
     ([FetchData, Suspend (Some 7), FetchData] @
      [UpdateData [Sub (demo_sub\<lparr> suspend_by := Some ''auto'' \<rparr>),
                   SettingsEntry (Some (defaults demo_config))]]) = Failed
   \<and> sweeper_tick demo_config None 172861000 (read_only_store [Sub demo_sub])
       (sweeper_tick demo_config None 172801000 (read_only_store [Sub demo_sub]) (None, [], []))
     = (None, [],
        [FetchData, Suspend (Some 7), FetchData,
         UpdateData [Sub (demo_sub\<lparr> suspend_by := Some ''auto'' \<rparr>),
                     SettingsEntry (Some (defaults demo_config))],
         FetchData, Suspend (Some 7), FetchData,
         UpdateData [Sub (demo_sub\<lparr> suspend_by := Some ''auto'' \<rparr>),
                     SettingsEntry (Some (defaults demo_config))]])"
  by (simp add: sweeper_tick_def loadServerDatabase_def sweep_passes_def sweep_entry_def
      perform_def read_only_store_def resolved_def AUTO_DELETE_AFTER_DAYS_def demo_sub_def
      demo_panel_def getTime_def DAY_def Let_def saveServerDatabase_def loadSettings_def
      fetchData_def updateData_def)

section \<open>Deprovisioning by the sweeper\<close>

text \<open>
  Without a truthy owner id from the lookup, the lookup is the only call of
  \<open>deleteExpiredPanel\<close>, for every remote; and it returns \<open>true\<close> in every case.
\<close>

lemma deleteExpiredPanel_without_owner:
  "(\<And>n. env (tr @ [GetServer sid]) = ServerOwner n \<Longrightarrow> n = 0) \<Longrightarrow>
   deleteExpiredPanel env (ps, tr) sid u = (True, forget_order sid ps, tr @ [GetServer sid])"
  by (cases "env (tr @ [GetServer sid])")
     (simp_all add: deleteExpiredPanel_def perform_def truthy_def Let_def)

text \<open>
  Claim C8. When the lookup of the owner fails, \<open>deleteExpiredPanel\<close> issues no request
  to delete the remote server and still returns \<open>true\<close>: the lookup is the only call.
\<close>

theorem deleteExpiredPanel_skips_remote_delete:
  "deleteExpiredPanel (always Failed) ([], []) (Some 7) ''alice''
     = (True, [], [GetServer (Some 7)])"
  by (simp add: deleteExpiredPanel_def perform_def always_def truthy_def Let_def)


end
